theory Spec2Isabelle
  imports Complex_Main "HOL-Library.Sublist" "HOL-Library.AList" "HOL-Library.Multiset"
begin

section \<open>Python values\<close>

text \<open>
  The scanners compute with Python floats. They are modelled by the reals. Most
  statements below read every operation exactly, which is why they speak of values
  ``within floating tolerance''; the rounding of each float operation is modelled in the
  section on float arithmetic, for the statements about \<open>_analyze_market\<close> that depend
  on it, and a value beyond the largest finite double stands for \<open>inf\<close>. NaN is
  outside the model. What is kept everywhere is every place where the Python raises: a float division whose divisor is zero raises \<open>ZeroDivisionError\<close>,
  a list index past the end raises \<open>IndexError\<close>, and \<open>min\<close> of an empty collection
  raises \<open>ValueError\<close>. A function that can raise returns \<open>py_error + 'a\<close>, with
  \<open>Inl\<close> for the exception that escapes it.
\<close>

datatype py_error = ZeroDivisionError | IndexError | ValueError

definition py_div :: "real \<Rightarrow> real \<Rightarrow> py_error + real" where
  "py_div a b = (if b = 0 then Inl ZeroDivisionError else Inr (a / b))"

definition py_index :: "'a list \<Rightarrow> nat \<Rightarrow> py_error + 'a" where
  "py_index xs i = (if i < length xs then Inr (xs ! i) else Inl IndexError)"


section \<open>Python strings\<close>

text \<open>
  Question texts are taken to be ASCII: \<open>str.lower\<close>, \<open>str.isupper\<close>, \<open>str.split\<close>
  and the word characters of a regular expression are modelled on the ASCII letters,
  digits and white space, and a character outside ASCII counts as none of them.
  \<open>k in s\<close> on strings is the substring test.
\<close>

definition ascii_upper :: string where
  "ascii_upper = ''ABCDEFGHIJKLMNOPQRSTUVWXYZ''"

definition ascii_lower :: string where
  "ascii_lower = ''abcdefghijklmnopqrstuvwxyz''"

definition ascii_digits :: string where
  "ascii_digits = ''0123456789''"

definition lower_char :: "char \<Rightarrow> char" where
  "lower_char c = (case map_of (zip ascii_upper ascii_lower) c of Some l \<Rightarrow> l | None \<Rightarrow> c)"

definition py_lower :: "string \<Rightarrow> string" where
  "py_lower s = map lower_char s"

definition is_upper :: "char \<Rightarrow> bool" where
  "is_upper c \<longleftrightarrow> c \<in> set ascii_upper"

definition py_in :: "string \<Rightarrow> string \<Rightarrow> bool" where
  "py_in k s = sublist k s"

definition is_space :: "char \<Rightarrow> bool" where
  "is_space c \<longleftrightarrow>
     c \<in> set [CHR 0x09, CHR 0x0A, CHR 0x0B, CHR 0x0C, CHR 0x0D,
               CHR 0x1C, CHR 0x1D, CHR 0x1E, CHR 0x1F, CHR '' '']"

text \<open>
  The maximal runs of characters that satisfy \<open>keep\<close>, in order; \<open>cur\<close> is the run
  being read.
\<close>

fun char_runs :: "(char \<Rightarrow> bool) \<Rightarrow> string \<Rightarrow> string \<Rightarrow> string list" where
  "char_runs keep cur [] = (if cur = [] then [] else [cur])"
| "char_runs keep cur (c # cs) =
     (if keep c then char_runs keep (cur @ [c]) cs
      else if cur = [] then char_runs keep [] cs
      else cur # char_runs keep [] cs)"

text \<open>\<open>s.split()\<close> with no separator: the runs of characters that are not white space.\<close>

definition py_split :: "string \<Rightarrow> string list" where
  "py_split s = char_runs (\<lambda>c. \<not> is_space c) [] s"

text \<open>\<open>s.strip(chars)\<close>.\<close>

definition py_strip :: "string \<Rightarrow> string \<Rightarrow> string" where
  "py_strip chars s =
     rev (dropWhile (\<lambda>c. c \<in> set chars) (rev (dropWhile (\<lambda>c. c \<in> set chars) s)))"


section \<open>Intra-platform detector (bot/arbitrage\_scanner.py)\<close>

text \<open>
  \<open>Market\<close> of bot/polymarket\_client.py. The field \<open>id\<close> is written \<open>mid\<close>
  (\<open>id\<close> is the identity function of HOL).
\<close>

record Market =
  mid :: string
  question :: string
  slug :: string
  active :: bool
  closed :: bool
  outcomes :: "string list"
  outcome_prices :: "real list"
  volume :: real
  liquidity :: real
  end_date :: "string option"

record ArbitrageOpportunity =
  market :: Market
  type :: string
  total_cost :: real
  gross_profit_pct :: real
  net_profit_pct :: real
  optimal_allocation :: "string \<rightharpoonup> real"

text \<open>\<open>Config.TRADING_FEE\<close> is a constant of bot/config.py.\<close>

definition TRADING_FEE :: real where
  "TRADING_FEE = 0.02"

text \<open>
  The loop \<open>for i, outcome in enumerate(market.outcomes)\<close> that fills the dictionary
  \<open>optimal_allocation\<close>: a later outcome of the same name overwrites the entry of an
  earlier one, and a missing price raises \<open>IndexError\<close>.
\<close>

fun allocate ::
  "string list \<Rightarrow> real list \<Rightarrow> real \<Rightarrow> nat \<Rightarrow> (string \<rightharpoonup> real) \<Rightarrow> py_error + (string \<rightharpoonup> real)"
where
  "allocate [] prices tc i alloc = Inr alloc"
| "allocate (outcome # rest) prices tc i alloc =
     (case py_index prices i of
        Inl e \<Rightarrow> Inl e
      | Inr p \<Rightarrow>
          (case py_div p tc of
             Inl e \<Rightarrow> Inl e
           | Inr r \<Rightarrow> allocate rest prices tc (Suc i) (alloc(outcome \<mapsto> r))))"

text \<open>
  \<open>ArbitrageScanner._analyze_market\<close>, every operation read exactly. Python's
  \<open>sum\<close> adds the prices from the left starting at 0, which on the reals is
  \<open>sum_list\<close>; the same function with a rounding after every operation is
  \<open>analyze_market_with\<close> in the section on float arithmetic.
\<close>

definition analyze_market :: "Market \<Rightarrow> py_error + ArbitrageOpportunity option" where
  "analyze_market m =
     (if Market.closed m \<or> \<not> Market.active m then Inr None
      else if length (outcome_prices m) < 2 then Inr None
      else
        let tc = sum_list (outcome_prices m) in
        if tc \<ge> 1.0 then Inr None
        else
          (case py_div (1.0 - tc) tc of
             Inl e \<Rightarrow> Inl e
           | Inr g \<Rightarrow>
               let gross = g * 100 in
               (case py_div 1.0 tc of
                  Inl e \<Rightarrow> Inl e
                | Inr payout_per_dollar \<Rightarrow>
                    let fee_pct = TRADING_FEE * payout_per_dollar * 100;
                        net = gross - fee_pct
                    in
                    (case allocate (outcomes m) (outcome_prices m) tc 0 Map.empty of
                       Inl e \<Rightarrow> Inl e
                     | Inr alloc \<Rightarrow>
                         Inr (Some \<lparr> market = m,
                                     type = (if length (outcomes m) = 2 then ''binary''
                                             else ''multi_outcome''),
                                     total_cost = tc,
                                     gross_profit_pct = gross,
                                     net_profit_pct = net,
                                     optimal_allocation = alloc \<rparr>)))))"


section \<open>Float arithmetic\<close>





definition DBL_MAX :: real where
  "DBL_MAX = (2 - 1 / 2 ^ 52) * 2 ^ 1023"

text \<open>
  Python's \<open>sum\<close> over a list of floats, as CPython computes it up to version 3.11: from
  the left, starting at 0, with one rounded addition for each element. (CPython 3.12
  carries a compensation term along; the packages of the repository declare Python 3.10
  to 3.12.) \<open>rnd\<close> is the rounding of one operation.
\<close>

definition py_sum :: "(real \<Rightarrow> real) \<Rightarrow> real list \<Rightarrow> real" where
  "py_sum rnd xs = foldl (\<lambda>acc x. rnd (acc + x)) 0 xs"

text \<open>
  \<open>ArbitrageScanner._analyze_market\<close> with the rounding \<open>rnd\<close> applied to the
  result of every float operation, in the order the Python evaluates them: the additions
  of \<open>sum\<close>, \<open>1.0 - total_cost\<close>, each division, each product and the final
  subtraction; the literal \<open>0.02\<close> of \<open>TRADING_FEE\<close> is the float nearest to it.
  With the identity for \<open>rnd\<close> this is \<open>analyze_market\<close> above, and with
  \<open>to_double\<close> it is the function on doubles.
\<close>

fun allocate_with ::
  "(real \<Rightarrow> real) \<Rightarrow> string list \<Rightarrow> real list \<Rightarrow> real \<Rightarrow> nat \<Rightarrow> (string \<rightharpoonup> real)
     \<Rightarrow> py_error + (string \<rightharpoonup> real)"
where
  "allocate_with rnd [] prices tc i alloc = Inr alloc"
| "allocate_with rnd (outcome # rest) prices tc i alloc =
     (case py_index prices i of
        Inl e \<Rightarrow> Inl e
      | Inr p \<Rightarrow>
          (case py_div p tc of
             Inl e \<Rightarrow> Inl e
           | Inr r \<Rightarrow> allocate_with rnd rest prices tc (Suc i) (alloc(outcome \<mapsto> rnd r))))"

definition analyze_market_with ::
  "(real \<Rightarrow> real) \<Rightarrow> Market \<Rightarrow> py_error + ArbitrageOpportunity option"
where
  "analyze_market_with rnd m =
     (if Market.closed m \<or> \<not> Market.active m then Inr None
      else if length (outcome_prices m) < 2 then Inr None
      else
        let tc = py_sum rnd (outcome_prices m) in
        if tc \<ge> 1.0 then Inr None
        else
          (case py_div (rnd (1.0 - tc)) tc of
             Inl e \<Rightarrow> Inl e
           | Inr g \<Rightarrow>
               let gross = rnd (rnd g * 100) in
               (case py_div 1.0 tc of
                  Inl e \<Rightarrow> Inl e
                | Inr payout \<Rightarrow>
                    let payout_per_dollar = rnd payout;
                        fee_pct = rnd (rnd (rnd TRADING_FEE * payout_per_dollar) * 100);
                        net = rnd (gross - fee_pct)
                    in
                    (case allocate_with rnd (outcomes m) (outcome_prices m) tc 0 Map.empty of
                       Inl e \<Rightarrow> Inl e
                     | Inr alloc \<Rightarrow>
                         Inr (Some \<lparr> market = m,
                                     type = (if length (outcomes m) = 2 then ''binary''
                                             else ''multi_outcome''),
                                     total_cost = tc,
                                     gross_profit_pct = gross,
                                     net_profit_pct = net,
                                     optimal_allocation = alloc \<rparr>)))))"


section \<open>Platform markets (bot/platforms/base.py)\<close>

datatype MarketCategory =
  POLITICS | CRYPTO | SPORTS | ECONOMICS | ENTERTAINMENT | SCIENCE | OTHER

record PlatformOutcome =
  name :: string
  price :: real
  token_id :: "string option"

text \<open>
  \<open>PlatformMarket\<close>; a \<open>datetime\<close> is its POSIX time stamp. The field
  \<open>keywords\<close> is written \<open>market_keywords\<close>, and that of \<open>MatchedEvent\<close> below
  \<open>event_keywords\<close> (the word is reserved in a theory header).
\<close>

record PlatformMarket =
  platform :: string
  market_id :: string
  question :: string
  description :: string
  slug :: string
  url :: string
  outcomes :: "PlatformOutcome list"
  category :: MarketCategory
  volume :: real
  liquidity :: real
  end_date :: "int option"
  created_at :: "int option"
  active :: bool
  resolved :: bool
  market_keywords :: "string list"

text \<open>
  The properties \<open>best_yes_price\<close> and \<open>best_no_price\<close>: the price of the first
  outcome named yes/true (no/false), else the price of the first (second) outcome, else
  \<open>None\<close>.
\<close>

definition best_yes_price :: "PlatformMarket \<Rightarrow> real option" where
  "best_yes_price m =
     (case find (\<lambda>outcome. py_lower (name outcome) \<in> set [''yes'', ''true''])
             (PlatformMarket.outcomes m) of
        Some outcome \<Rightarrow> Some (price outcome)
      | None \<Rightarrow>
          (case PlatformMarket.outcomes m of
             [] \<Rightarrow> None
           | first # rest \<Rightarrow> Some (price first)))"

definition best_no_price :: "PlatformMarket \<Rightarrow> real option" where
  "best_no_price m =
     (case find (\<lambda>outcome. py_lower (name outcome) \<in> set [''no'', ''false''])
             (PlatformMarket.outcomes m) of
        Some outcome \<Rightarrow> Some (price outcome)
      | None \<Rightarrow>
          (case PlatformMarket.outcomes m of
             first # second # rest \<Rightarrow> Some (price second)
           | _ \<Rightarrow> None))"


section \<open>Event matcher (bot/event\_matcher.py)\<close>

text \<open>
  \<open>MatchedEvent\<close>. The dictionary \<open>markets\<close> is an association list in insertion
  order. \<open>match_reason\<close>, a display text, is left out.
\<close>

record MatchedEvent =
  event_id :: string
  name :: string
  category :: MarketCategory
  markets :: "(string \<times> PlatformMarket) list"
  confidence :: real
  event_keywords :: "string set"
  needs_verification :: bool

definition ENTITIES :: "string set" where
  "ENTITIES = set
     [''trump'', ''biden'', ''harris'', ''vance'', ''newsom'', ''desantis'', ''musk'', ''elon'',
      ''starmer'', ''keir'', ''putin'', ''zelensky'', ''xi'', ''macron'', ''scholz'', ''modi'',
      ''khamenei'', ''netanyahu'', ''trudeau'', ''milei'', ''altman'', ''zuckerberg'',
      ''nato'', ''fed'', ''sec'', ''congress'', ''senate'', ''supreme'', ''court'',
      ''spacex'', ''tesla'', ''openai'', ''twitter'', ''meta'', ''google'',
      ''ukraine'', ''russia'', ''china'', ''iran'', ''israel'', ''gaza'', ''greenland'',
      ''taiwan'', ''uk'', ''britain'', ''us'', ''usa'', ''america'',
      ''recession'', ''ceasefire'', ''war'', ''pandemic'', ''bitcoin'', ''btc'', ''crypto'',
      ''election'', ''president'', ''impeach'', ''veto'']"

definition YEARS :: "string set" where
  "YEARS = set [''2024'', ''2025'', ''2026'', ''2027'', ''2028'']"

definition ACTIONS :: "string set" where
  "ACTIONS = set
     [''win'', ''lose'', ''leave'', ''remain'', ''resign'', ''ceasefire'',
      ''recession'', ''cut'', ''raise'', ''reach'', ''hit'', ''join'']"

text \<open>
  The two \<open>re.findall\<close> calls of \<open>_extract_keywords\<close>. A word boundary \<open>\b\<close> stands
  between a word character (letter, digit, underscore) and anything else, so a match of
  \<open>\b[a-z0-9]+\b\<close> is a maximal run of word characters that holds lower-case letters
  and digits only, and a match of \<open>\b(202[4-9])\b\<close> is such a run that is one of the
  six years.
\<close>

definition is_word_char :: "char \<Rightarrow> bool" where
  "is_word_char c \<longleftrightarrow> c \<in> set (ascii_lower @ ascii_upper @ ascii_digits @ ''_'')"

definition word_runs :: "string \<Rightarrow> string list" where
  "word_runs s = char_runs is_word_char [] s"

definition findall_words :: "string \<Rightarrow> string list" where
  "findall_words text =
     filter (\<lambda>w. list_all (\<lambda>c. c \<in> set (ascii_lower @ ascii_digits)) w) (word_runs text)"

definition findall_years :: "string \<Rightarrow> string list" where
  "findall_years text =
     filter (\<lambda>w. w \<in> set [''2024'', ''2025'', ''2026'', ''2027'', ''2028'', ''2029''])
       (word_runs text)"

text \<open>\<open>EventMatcher._extract_keywords\<close>.\<close>

definition extract_keywords :: "string \<Rightarrow> string set" where
  "extract_keywords text =
     (let text_lower = py_lower text;
          words = set (findall_words text_lower);
          entities = words \<inter> ENTITIES;
          years = set (findall_years text);
          actions = words \<inter> ACTIONS
      in entities \<union> years \<union> actions)"

text \<open>
  \<open>EventMatcher._calculate_similarity\<close>, its score (the second component, the text
  \<open>reason\<close>, is for display). The argument \<open>kw1\<close> defaults to \<open>None\<close>; \<open>None\<close> and the
  empty set are both false in \<open>kw1 or ...\<close>, so the empty set stands for both. The
  division cannot raise: \<open>union\<close> contains the non-empty \<open>kw1\<close>.
\<close>

definition calculate_similarity :: "PlatformMarket \<Rightarrow> PlatformMarket \<Rightarrow> string set \<Rightarrow> real" where
  "calculate_similarity m1 m2 kw1_arg =
     (let kw1 = (if kw1_arg = {} then extract_keywords (PlatformMarket.question m1) else kw1_arg);
          kw2 = extract_keywords (PlatformMarket.question m2)
      in
      if kw1 = {} \<or> kw2 = {} then 0
      else
        let common = kw1 \<inter> kw2 in
        if common = {} then 0
        else
          let union = kw1 \<union> kw2;
              jaccard = real (card common) / real (card union);
              entity_bonus = (if common \<inter> ENTITIES \<noteq> {} then 0.2 else 0);
              year_bonus = (if common \<inter> YEARS \<noteq> {} then 0.15 else 0);
              score = jaccard + entity_bonus + year_bonus
          in min score 1.0)"

text \<open>The key \<open>f"{m.platform}:{m.market_id}"\<close> of the set \<open>used_markets\<close>.\<close>

definition market_key :: "PlatformMarket \<Rightarrow> string" where
  "market_key m = platform m @ '':'' @ market_id m"

text \<open>The grouping \<open>by_platform\<close>, in the order the platforms first appear.\<close>

fun group_insert ::
  "PlatformMarket \<Rightarrow> (string \<times> PlatformMarket list) list \<Rightarrow> (string \<times> PlatformMarket list) list"
where
  "group_insert m [] = [(platform m, [m])]"
| "group_insert m ((p, ms) # rest) =
     (if p = platform m then (p, ms @ [m]) # rest else (p, ms) # group_insert m rest)"

definition by_platform :: "PlatformMarket list \<Rightarrow> (string \<times> PlatformMarket list) list" where
  "by_platform ms = foldl (\<lambda>d m. group_insert m d) [] ms"

text \<open>
  The inner loop over the candidates of one other platform: the candidate of the
  highest score at or above the threshold, the first one on a tie.
\<close>

fun best_match_loop ::
  "real \<Rightarrow> PlatformMarket \<Rightarrow> string set \<Rightarrow> string set \<Rightarrow> (PlatformMarket \<times> real) option \<Rightarrow> real
     \<Rightarrow> PlatformMarket list \<Rightarrow> (PlatformMarket \<times> real) option"
where
  "best_match_loop thresh m kws used best_match best_score [] = best_match"
| "best_match_loop thresh m kws used best_match best_score (candidate # rest) =
     (if market_key candidate \<in> used then
        best_match_loop thresh m kws used best_match best_score rest
      else
        let score = calculate_similarity m candidate kws in
        if score > best_score \<and> score \<ge> thresh then
          best_match_loop thresh m kws used (Some (candidate, score)) score rest
        else best_match_loop thresh m kws used best_match best_score rest)"

fun find_matches ::
  "real \<Rightarrow> PlatformMarket \<Rightarrow> string set \<Rightarrow> string set \<Rightarrow> (string \<times> PlatformMarket list) list
     \<Rightarrow> (PlatformMarket \<times> real) list"
where
  "find_matches thresh m kws used [] = []"
| "find_matches thresh m kws used ((other, candidates) # rest) =
     (case best_match_loop thresh m kws used None 0 candidates of
        None \<Rightarrow> find_matches thresh m kws used rest
      | Some b \<Rightarrow> b # find_matches thresh m kws used rest)"

text \<open>The loop that adds the matches to the event and marks them used.\<close>

fun add_matches ::
  "(PlatformMarket \<times> real) list \<Rightarrow> MatchedEvent \<times> string set \<Rightarrow> MatchedEvent \<times> string set"
where
  "add_matches [] (ev, used) = (ev, used)"
| "add_matches ((mm, conf) # rest) (ev, used) =
     (if market_key mm \<notin> used then
        add_matches rest
          (ev\<lparr> markets := AList.update (platform mm) mm (markets ev),
               MatchedEvent.confidence := max (MatchedEvent.confidence ev) conf \<rparr>,
           insert (market_key mm) used)
      else add_matches rest (ev, used))"

text \<open>
  The loop over the markets of the first platform. \<open>_generate_event_id\<close> is an MD5
  digest; it is the parameter \<open>gen_id\<close>.
\<close>

fun match_loop ::
  "(PlatformMarket \<Rightarrow> string) \<Rightarrow> real \<Rightarrow> (string \<times> PlatformMarket list) list
     \<Rightarrow> PlatformMarket list \<Rightarrow> MatchedEvent list \<times> string set \<Rightarrow> MatchedEvent list \<times> string set"
where
  "match_loop gen_id thresh others [] st = st"
| "match_loop gen_id thresh others (m # rest) (matched, used) =
     (if market_key m \<in> used then match_loop gen_id thresh others rest (matched, used)
      else
        let kws = extract_keywords (PlatformMarket.question m) in
        if kws = {} then match_loop gen_id thresh others rest (matched, used)
        else
          let matches = find_matches thresh m kws used others in
          if matches \<noteq> [] then
            let ev0 = \<lparr> event_id = gen_id m, name = take 80 (PlatformMarket.question m),
                        category = PlatformMarket.category m,
                        markets = [(platform m, m)], confidence = 0, event_keywords = kws,
                        needs_verification = True \<rparr>;
                (ev, used2) = add_matches matches (ev0, insert (market_key m) used);
                matched2 = (if length (markets ev) > 1 then matched @ [ev] else matched)
            in match_loop gen_id thresh others rest (matched2, insert (market_key m) used2)
          else match_loop gen_id thresh others rest (matched, insert (market_key m) used))"

text \<open>\<open>EventMatcher.match_markets\<close>, for a matcher of the given threshold.\<close>

definition match_markets ::
  "(PlatformMarket \<Rightarrow> string) \<Rightarrow> real \<Rightarrow> PlatformMarket list \<Rightarrow> MatchedEvent list"
where
  "match_markets gen_id thresh ms =
     (case by_platform ms of
        [] \<Rightarrow> []
      | (main_platform, main_markets) # others \<Rightarrow>
          fst (match_loop gen_id thresh others main_markets ([], {})))"

text \<open>The default of \<open>EventMatcher.__init__\<close>.\<close>

definition DEFAULT_SIMILARITY_THRESHOLD :: real where
  "DEFAULT_SIMILARITY_THRESHOLD = 0.45"


section \<open>Cross-platform detector (bot/cross\_platform\_scanner.py)\<close>

record CrossPlatformArbitrage =
  event :: MatchedEvent
  yes_platform :: string
  yes_price :: real
  no_platform :: string
  no_price :: real
  total_cost :: real
  gross_profit_pct :: real
  net_profit_pct :: real
  yes_platform_fee :: real
  no_platform_fee :: real

text \<open>
  The loop that fills the dictionaries \<open>yes_prices\<close> and \<open>no_prices\<close>: a quote that is
  \<open>None\<close>, zero or negative is not entered (\<open>if yes_price and yes_price > 0\<close>).
\<close>

fun collect_prices ::
  "(string \<times> PlatformMarket) list \<Rightarrow> (string \<times> real) list \<times> (string \<times> real) list
     \<Rightarrow> (string \<times> real) list \<times> (string \<times> real) list"
where
  "collect_prices [] (ys, ns) = (ys, ns)"
| "collect_prices ((platform_name, m) # rest) (ys, ns) =
     collect_prices rest
       ((case best_yes_price m of
           None \<Rightarrow> ys
         | Some y \<Rightarrow> if y \<noteq> 0 \<and> y > 0 then AList.update platform_name y ys else ys),
        (case best_no_price m of
           None \<Rightarrow> ns
         | Some n \<Rightarrow> if n \<noteq> 0 \<and> n > 0 then AList.update platform_name n ns else ns))"

definition yes_prices :: "MatchedEvent \<Rightarrow> (string \<times> real) list" where
  "yes_prices ev = fst (collect_prices (markets ev) ([], []))"

definition no_prices :: "MatchedEvent \<Rightarrow> (string \<times> real) list" where
  "no_prices ev = snd (collect_prices (markets ev) ([], []))"

text \<open>
  \<open>min(d.items(), key=lambda x: x[1])\<close>: the first item of the least price; on an
  empty dictionary \<open>min\<close> raises \<open>ValueError\<close>.
\<close>

fun min_by_price :: "string \<times> real \<Rightarrow> (string \<times> real) list \<Rightarrow> string \<times> real" where
  "min_by_price best [] = best"
| "min_by_price best (q # qs) =
     (if snd q < snd best then min_by_price q qs else min_by_price best qs)"

definition py_min_price :: "(string \<times> real) list \<Rightarrow> py_error + string \<times> real" where
  "py_min_price qs = (case qs of [] \<Rightarrow> Inl ValueError | q # rest \<Rightarrow> Inr (min_by_price q rest))"

text \<open>
  \<open>CrossPlatformScanner._find_arbitrage\<close>. \<open>platforms\<close> gives the \<open>trading_fee\<close> of
  each platform object the scanner holds.
\<close>

definition find_arbitrage ::
  "(string \<rightharpoonup> real) \<Rightarrow> MatchedEvent \<Rightarrow> py_error + CrossPlatformArbitrage list"
where
  "find_arbitrage platforms ev =
     (if length (yes_prices ev) < 1 \<or> length (no_prices ev) < 1 then Inr []
      else
        (case py_min_price (yes_prices ev) of
           Inl e \<Rightarrow> Inl e
         | Inr best_yes \<Rightarrow>
             (case py_min_price (no_prices ev) of
                Inl e \<Rightarrow> Inl e
              | Inr best_no \<Rightarrow>
                  let tc = snd best_yes + snd best_no in
                  if tc \<ge> 1.0 then Inr []
                  else if fst best_yes = fst best_no then Inr []
                  else
                    let yes_fee = (case platforms (fst best_yes) of Some f \<Rightarrow> f | None \<Rightarrow> 0.02);
                        no_fee = (case platforms (fst best_no) of Some f \<Rightarrow> f | None \<Rightarrow> 0.02);
                        gross_profit = 1.0 - tc
                    in
                    (case py_div gross_profit tc of
                       Inl e \<Rightarrow> Inl e
                     | Inr g \<Rightarrow>
                         let gross = g * 100;
                             avg_fee = (yes_fee + no_fee) / 2;
                             net_profit = gross_profit - avg_fee
                         in
                         (case py_div net_profit tc of
                            Inl e \<Rightarrow> Inl e
                          | Inr n \<Rightarrow>
                              Inr [\<lparr> event = ev,
                                     yes_platform = fst best_yes, yes_price = snd best_yes,
                                     no_platform = fst best_no, no_price = snd best_no,
                                     total_cost = tc, gross_profit_pct = gross,
                                     net_profit_pct = n * 100,
                                     yes_platform_fee = yes_fee, no_platform_fee = no_fee \<rparr>])))))"

text \<open>
  The quotes of an event as the properties state them. \<open>all_quotes\<close> reads, for each
  platform of the event in order, its best YES (or NO) price when it has one;
  \<open>positive_quotes\<close> keeps those that are positive, which are the ones the detector
  enters. The cheapest quote of a list is the first one whose price is the minimum of
  them all.
\<close>

fun all_quotes ::
  "(PlatformMarket \<Rightarrow> real option) \<Rightarrow> (string \<times> PlatformMarket) list \<Rightarrow> (string \<times> real) list"
where
  "all_quotes best [] = []"
| "all_quotes best ((p, m) # rest) =
     (case best m of
        None \<Rightarrow> all_quotes best rest
      | Some v \<Rightarrow> (p, v) # all_quotes best rest)"

fun positive_quotes ::
  "(PlatformMarket \<Rightarrow> real option) \<Rightarrow> (string \<times> PlatformMarket) list \<Rightarrow> (string \<times> real) list"
where
  "positive_quotes best [] = []"
| "positive_quotes best ((p, m) # rest) =
     (case best m of
        None \<Rightarrow> positive_quotes best rest
      | Some v \<Rightarrow> if 0 < v then (p, v) # positive_quotes best rest else positive_quotes best rest)"


definition cheapest :: "(string \<times> real) list \<Rightarrow> string option" where
  "cheapest quotes =
     (if quotes = [] then None
      else map_option fst (find (\<lambda>q. snd q = Min (set (map snd quotes))) quotes))"


section \<open>Delta detector (bot/delta\_scanner.py)\<close>

text \<open>
  The dictionary \<open>DeltaScanner._parse_market\<close> builds, with its nine keys as fields
  (\<open>id\<close> written \<open>mid\<close>). \<open>threshold\<close> is \<open>None\<close> when no price target was found
  in the question.
\<close>

record ParsedMarket =
  mid :: string
  question :: string
  yes_price :: real
  no_price :: real
  volume :: real
  url :: string
  threshold :: "real option"
  topic :: string
  direction :: string

text \<open>
  \<open>DeltaOpportunity\<close>. Its three display texts (\<open>logic_error\<close>, \<open>action\<close>,
  \<open>explanation\<close>) are f-strings over the other fields; formatting a float cannot
  raise, and no rule reads them back, so they are left out of the record.
\<close>

record DeltaOpportunity =
  event_a :: ParsedMarket
  event_b :: ParsedMarket
  topic :: string
  profit_potential :: real
  confidence :: int

text \<open>The test \<open>m.get("threshold")\<close>: \<open>None\<close> and \<open>0.0\<close> are false.\<close>

definition has_threshold :: "ParsedMarket \<Rightarrow> bool" where
  "has_threshold m = (case threshold m of None \<Rightarrow> False | Some t \<Rightarrow> t \<noteq> 0)"

text \<open>\<open>m["threshold"]\<close>, read only on markets that passed \<open>has_threshold\<close>.\<close>

definition thr :: "ParsedMarket \<Rightarrow> real" where
  "thr m = the (threshold m)"

text \<open>
  Running one rule after another: the opportunities are appended in order, and an
  exception raised by either part escapes the whole call.
\<close>

definition and_then ::
  "py_error + 'a list \<Rightarrow> py_error + 'a list \<Rightarrow> py_error + 'a list"
where
  "and_then r s =
     (case r of
        Inl e \<Rightarrow> Inl e
      | Inr xs \<Rightarrow> (case s of Inl e \<Rightarrow> Inl e | Inr ys \<Rightarrow> Inr (xs @ ys)))"

text \<open>
  The body of the first loop, for one adjacent pair of the sorted reach markets: the
  violation (confidence 90) and, in the \<open>elif\<close> branch, the near-miss advisory
  (confidence 60).
\<close>

definition reach_pair ::
  "string \<Rightarrow> ParsedMarket \<Rightarrow> ParsedMarket \<Rightarrow> py_error + DeltaOpportunity list"
where
  "reach_pair tp lower higher =
     (case py_div (thr higher) (thr lower) of
        Inl e \<Rightarrow> Inl e
      | Inr ratio \<Rightarrow>
          if ratio < 1.1 then Inr []
          else if yes_price higher > yes_price lower \<and> yes_price lower > 0.001 then
            (let diff = yes_price higher - yes_price lower in
             case py_div diff (max (yes_price lower) 0.01) of
               Inl e \<Rightarrow> Inl e
             | Inr d \<Rightarrow>
                 let profit = d * 100 in
                 Inr [\<lparr> event_a = higher, event_b = lower, topic = tp,
                        profit_potential = min profit 500, confidence = 90 \<rparr>])
          else if \<bar>yes_price higher - yes_price lower\<bar> < 0.02 \<and> yes_price lower > 0.05 then
            Inr [\<lparr> event_a = higher, event_b = lower, topic = tp,
                   profit_potential = 5, confidence = 60 \<rparr>]
          else Inr [])"

fun reach_scan :: "string \<Rightarrow> ParsedMarket list \<Rightarrow> py_error + DeltaOpportunity list" where
  "reach_scan tp (lower # higher # rest) =
     and_then (reach_pair tp lower higher) (reach_scan tp (higher # rest))"
| "reach_scan tp ms = Inr []"

text \<open>The body of the second loop: the dip violation (confidence 85).\<close>

definition dip_pair ::
  "string \<Rightarrow> ParsedMarket \<Rightarrow> ParsedMarket \<Rightarrow> py_error + DeltaOpportunity list"
where
  "dip_pair tp lower higher =
     (if yes_price lower > yes_price higher \<and> yes_price higher > 0.001 then
        (let diff = yes_price lower - yes_price higher in
         case py_div diff (max (yes_price higher) 0.01) of
           Inl e \<Rightarrow> Inl e
         | Inr d \<Rightarrow>
             let profit = d * 100 in
             Inr [\<lparr> event_a = lower, event_b = higher, topic = tp,
                    profit_potential = min profit 500, confidence = 85 \<rparr>])
      else Inr [])"

fun dip_scan :: "string \<Rightarrow> ParsedMarket list \<Rightarrow> py_error + DeltaOpportunity list" where
  "dip_scan tp (lower # higher # rest) =
     and_then (dip_pair tp lower higher) (dip_scan tp (higher # rest))"
| "dip_scan tp ms = Inr []"

text \<open>The body of the third loop: YES + NO of one market (confidence 95).\<close>

definition spread_one :: "string \<Rightarrow> ParsedMarket \<Rightarrow> py_error + DeltaOpportunity list" where
  "spread_one tp m =
     (let total = yes_price m + no_price m in
      if total < 0.95 \<and> ParsedMarket.volume m > 5000 then
        (case py_div (1.0 - total) total of
           Inl e \<Rightarrow> Inl e
         | Inr d \<Rightarrow>
             let profit = d * 100 in
             Inr [\<lparr> event_a = m, event_b = m, topic = tp,
                    profit_potential = profit, confidence = 95 \<rparr>])
      else Inr [])"

fun spread_scan :: "string \<Rightarrow> ParsedMarket list \<Rightarrow> py_error + DeltaOpportunity list" where
  "spread_scan tp [] = Inr []"
| "spread_scan tp (m # ms) = and_then (spread_one tp m) (spread_scan tp ms)"

text \<open>
  The three selections of \<open>_find_inconsistencies\<close>. \<open>list.sort(key=...)\<close> is a stable
  sort, as \<open>sort_key\<close> is.
\<close>

definition reach_markets :: "ParsedMarket list \<Rightarrow> ParsedMarket list" where
  "reach_markets ms =
     sort_key thr (filter (\<lambda>m. has_threshold m \<and> direction m \<in> set [''above'', ''reach'']) ms)"

definition dip_markets :: "ParsedMarket list \<Rightarrow> ParsedMarket list" where
  "dip_markets ms =
     sort_key thr (filter (\<lambda>m. has_threshold m \<and> direction m = ''below'') ms)"

definition all_threshold :: "ParsedMarket list \<Rightarrow> ParsedMarket list" where
  "all_threshold ms = filter has_threshold ms"

text \<open>\<open>DeltaScanner._find_inconsistencies\<close>.\<close>

definition find_inconsistencies ::
  "string \<Rightarrow> ParsedMarket list \<Rightarrow> py_error + DeltaOpportunity list"
where
  "find_inconsistencies tp ms =
     and_then (reach_scan tp (reach_markets ms))
       (and_then (dip_scan tp (dip_markets ms))
          (spread_scan tp (all_threshold ms)))"


section \<open>Topic extractor (bot/delta\_scanner.py)\<close>

text \<open>
  \<open>DeltaScanner._extract_topic\<close>: the \<open>if\<close>/\<open>elif\<close> chain over the lower-cased
  question, then the first capitalised word of the question, then \<open>OTHER\<close>.
\<close>

definition skip_words :: "string list" where
  "skip_words =
     [''will'', ''the'', ''be'', ''is'', ''are'', ''have'', ''has'', ''do'', ''does'',
      ''can'', ''could'', ''would'', ''should'', ''what'', ''when'', ''where'', ''who'',
      ''how'', ''why'', ''any'', ''all'', ''each'', ''every'', ''this'', ''that'']"

text \<open>The characters of \<open>w.strip('?,."\'()[]')\<close>.\<close>

definition strip_chars :: string where
  "strip_chars =
     [CHR ''?'', CHR '','', CHR ''.'', CHR 0x22, CHR 0x27, CHR ''('', CHR '')'', CHR ''['',
      CHR '']'']"

fun capitalized_word :: "string list \<Rightarrow> string" where
  "capitalized_word [] = ''OTHER''"
| "capitalized_word (w # ws) =
     (let clean = py_strip strip_chars w in
      if clean \<noteq> [] \<and> is_upper (hd clean) \<and> length clean > 2
         \<and> py_lower clean \<notin> set skip_words
      then take 12 clean
      else capitalized_word ws)"

definition extract_topic :: "string \<Rightarrow> string" where
  "extract_topic text =
     (let q_lower = py_lower text in
      if py_in ''bitcoin'' q_lower \<or> py_in ''btc'' q_lower then ''BTC''
      else if py_in ''ethereum'' q_lower \<or> py_in ''eth'' q_lower then ''ETH''
      else if py_in ''solana'' q_lower \<or> py_in ''sol '' q_lower then ''SOL''
      else if py_in ''xrp'' q_lower \<or> py_in ''ripple'' q_lower then ''XRP''
      else if py_in ''dogecoin'' q_lower \<or> py_in ''doge'' q_lower then ''DOGE''
      else if py_in ''trump'' q_lower then ''TRUMP''
      else if py_in ''biden'' q_lower then ''BIDEN''
      else if py_in ''harris'' q_lower then ''HARRIS''
      else if py_in ''musk'' q_lower \<or> py_in ''elon'' q_lower then ''MUSK''
      else if py_in ''fed'' q_lower \<or> py_in ''interest rate'' q_lower
              \<or> py_in ''federal reserve'' q_lower then ''FED_RATE''
      else if py_in ''inflation'' q_lower \<or> py_in ''cpi'' q_lower then ''INFLATION''
      else if py_in ''gdp'' q_lower then ''GDP''
      else if py_in ''tesla'' q_lower \<or> py_in ''tsla'' q_lower then ''TESLA''
      else if py_in ''sp500'' q_lower \<or> py_in ''s&p'' q_lower \<or> py_in ''spy'' q_lower
        then ''SP500''
      else if py_in ''nasdaq'' q_lower \<or> py_in ''qqq'' q_lower then ''NASDAQ''
      else if py_in ''nvidia'' q_lower \<or> py_in ''nvda'' q_lower then ''NVIDIA''
      else capitalized_word (py_split text))"

text \<open>
  The reading of the extractor that the specification gives (section 4.2): the keyword
  categories in their declaration order, each scored by the number of its keywords that
  occur in the lower-cased question; the highest score wins, the earlier category on a
  tie, and \<open>OTHER\<close> when nothing occurs.
\<close>

definition categories :: "(string \<times> string list) list" where
  "categories =
     [(''BTC'', [''bitcoin'', ''btc'']),
      (''ETH'', [''ethereum'', ''eth'']),
      (''SOL'', [''solana'', ''sol '']),
      (''XRP'', [''xrp'', ''ripple'']),
      (''DOGE'', [''dogecoin'', ''doge'']),
      (''TRUMP'', [''trump'']),
      (''BIDEN'', [''biden'']),
      (''HARRIS'', [''harris'']),
      (''MUSK'', [''musk'', ''elon'']),
      (''FED_RATE'', [''fed'', ''interest rate'', ''federal reserve'']),
      (''INFLATION'', [''inflation'', ''cpi'']),
      (''GDP'', [''gdp'']),
      (''TESLA'', [''tesla'', ''tsla'']),
      (''SP500'', [''sp500'', ''s&p'', ''spy'']),
      (''NASDAQ'', [''nasdaq'', ''qqq'']),
      (''NVIDIA'', [''nvidia'', ''nvda''])]"

definition hits :: "string list \<Rightarrow> string \<Rightarrow> nat" where
  "hits kws text = length (filter (\<lambda>k. py_in k (py_lower text)) kws)"

fun best_category :: "string \<Rightarrow> nat \<Rightarrow> (string \<times> string list) list \<Rightarrow> string \<Rightarrow> string" where
  "best_category best n [] text = best"
| "best_category best n ((tag, kws) # rest) text =
     (if hits kws text > n then best_category tag (hits kws text) rest text
      else best_category best n rest text)"

definition topic_by_hits :: "string \<Rightarrow> string" where
  "topic_by_hits text = best_category ''OTHER'' 0 categories text"

text \<open>
  The reading that the code follows: the first category, in declaration order, one of
  whose keywords occurs in the lower-cased question.
\<close>

definition first_category :: "string \<Rightarrow> string option" where
  "first_category text =
     map_option fst
       (find (\<lambda>c. \<exists>k \<in> set (snd c). py_in k (py_lower text)) categories)"

text \<open>
  The fall-back of the extractor as the amended property states it: the first word of
  the question that, stripped of \<open>?,."'()[]\<close>, is not empty, starts with an upper-case
  letter, is longer than two characters and is not a skip word, cut to 12 characters;
  \<open>OTHER\<close> when there is no such word.
\<close>

definition eligible :: "string \<Rightarrow> bool" where
  "eligible clean \<longleftrightarrow>
     clean \<noteq> [] \<and> is_upper (hd clean) \<and> length clean > 2 \<and> py_lower clean \<notin> set skip_words"

definition first_capitalized :: "string \<Rightarrow> string" where
  "first_capitalized text =
     (case find eligible (map (py_strip strip_chars) (py_split text)) of
        Some clean \<Rightarrow> take 12 clean
      | None \<Rightarrow> ''OTHER'')"


section \<open>Inputs and predicates of the statements\<close>

text \<open>
  An open binary \<open>Market\<close> with the given outcome names and prices, and a parsed
  market of the delta detector with a reach question: the concrete inputs the
  statements below are evaluated at.
\<close>

definition binary_example :: "string \<Rightarrow> string \<Rightarrow> real \<Rightarrow> real \<Rightarrow> Market" where
  "binary_example a b p q =
     \<lparr> Market.mid = ''1'', Market.question = ''Will it happen?'',
       Market.slug = ''will-it-happen'', Market.active = True, Market.closed = False,
       Market.outcomes = [a, b], Market.outcome_prices = [p, q], Market.volume = 10000,
       Market.liquidity = 500, Market.end_date = None \<rparr>"

definition reach_example :: "string \<Rightarrow> real \<Rightarrow> real \<Rightarrow> real \<Rightarrow> real \<Rightarrow> ParsedMarket" where
  "reach_example i t y n v =
     \<lparr> ParsedMarket.mid = i, ParsedMarket.question = ''Will Bitcoin reach the target?'',
       ParsedMarket.yes_price = y, ParsedMarket.no_price = n, ParsedMarket.volume = v,
       ParsedMarket.url = ''https://polymarket.com/event/btc'',
       ParsedMarket.threshold = Some t, ParsedMarket.topic = ''BTC'',
       ParsedMarket.direction = ''reach'' \<rparr>"


text \<open>
  A reach-direction market of threshold \<open>t\<close> and YES price \<open>y\<close>, as the delta
  monotonicity property speaks of it. Its NO price is a price of the data model, so it
  is not negative.
\<close>

definition reach_market :: "ParsedMarket \<Rightarrow> real \<Rightarrow> real \<Rightarrow> bool" where
  "reach_market m t y \<longleftrightarrow>
     ParsedMarket.threshold m = Some t
     \<and> ParsedMarket.direction m \<in> set [''above'', ''reach'']
     \<and> ParsedMarket.yes_price m = y \<and> 0 \<le> ParsedMarket.no_price m"

text \<open>
  A near-miss advisory (confidence 60) is only ever emitted for a pair that is not a
  violation.
\<close>

definition near_miss_ok :: "DeltaOpportunity \<Rightarrow> bool" where
  "near_miss_ok d \<longleftrightarrow>
     (confidence d = 60 \<longrightarrow>
        \<not> (ParsedMarket.yes_price (event_a d) > ParsedMarket.yes_price (event_b d)
           \<and> ParsedMarket.yes_price (event_b d) > 0.001))"


text \<open>
  A binary platform market with the given platform, identifier, question and YES and NO
  prices, and an event that holds the given markets under their platform names.
\<close>

definition platform_example :: "string \<Rightarrow> string \<Rightarrow> string \<Rightarrow> real \<Rightarrow> real \<Rightarrow> PlatformMarket" where
  "platform_example p i q y n =
     \<lparr> platform = p, market_id = i, PlatformMarket.question = q, description = [],
       PlatformMarket.slug = [], PlatformMarket.url = [],
       PlatformMarket.outcomes =
         [\<lparr> PlatformOutcome.name = ''Yes'', price = y, token_id = None \<rparr>,
          \<lparr> PlatformOutcome.name = ''No'', price = n, token_id = None \<rparr>],
       PlatformMarket.category = POLITICS, PlatformMarket.volume = 10000,
       PlatformMarket.liquidity = 0, PlatformMarket.end_date = None, created_at = None,
       PlatformMarket.active = True, resolved = False, market_keywords = [] \<rparr>"

definition event_example :: "PlatformMarket list \<Rightarrow> MatchedEvent" where
  "event_example ms =
     \<lparr> event_id = ''e1'', MatchedEvent.name = ''Example event'',
       MatchedEvent.category = POLITICS, markets = map (\<lambda>m. (platform m, m)) ms,
       MatchedEvent.confidence = 0.85, event_keywords = {}, needs_verification = True \<rparr>"


text \<open>
  A positive quote far below any market price: \<open>2 ^ -1030\<close>, about 8.7e-311, which
  is a (subnormal) double.
\<close>

definition tiny_quote :: real where
  "tiny_quote = 1 / 2 ^ 1030"


text \<open>
  Two invariants of the proofs. The groups of \<open>by_platform\<close> have distinct platform
  names and hold markets of their own platform; every quote entered in \<open>yes_prices\<close>
  or \<open>no_prices\<close> is positive and is the quote of a market of the event.
\<close>

definition groups_ok :: "PlatformMarket set \<Rightarrow> (string \<times> PlatformMarket list) list \<Rightarrow> bool" where
  "groups_ok S d \<longleftrightarrow>
     distinct (map fst d) \<and> (\<forall>(p, g) \<in> set d. \<forall>m \<in> set g. platform m = p \<and> m \<in> S)"

definition quotes_ok ::
  "(PlatformMarket \<Rightarrow> real option) \<Rightarrow> (string \<times> PlatformMarket) list \<Rightarrow> (string \<times> real) list \<Rightarrow> bool"
where
  "quotes_ok best ms qs \<longleftrightarrow>
     (\<forall>(p, v) \<in> set qs. 0 < v \<and> (\<exists>m. (p, m) \<in> set ms \<and> best m = Some v))"


section \<open>Intra-platform detector: results\<close>

text \<open>
  With the identity for the rounding, the function with roundings is the one that
  reads every operation exactly.
\<close>

lemma foldl_add: "foldl (\<lambda>acc x. acc + x) s xs = s + sum_list xs" for s :: real
  by (induction xs arbitrary: s) simp_all

lemma allocate_with_id: "allocate_with (\<lambda>x. x) os ps tc i al = allocate os ps tc i al"
  by (induction os arbitrary: i al) (simp_all split: sum.splits)

lemma analyze_market_with_id: "analyze_market_with (\<lambda>x. x) m = analyze_market m"
  by (simp add: analyze_market_with_def analyze_market_def py_sum_def foldl_add allocate_with_id
      Let_def cong: sum.case_cong)













text \<open>
  Claim C2. On the open binary market with Yes at 0.40 and No at 0.55, and the trading
  fee 0.02 of the configuration, \<open>_analyze_market\<close> returns an opportunity with
  total cost 0.95, a gross profit of 5.26 per cent and a net profit of 3.16 per cent
  (both to two decimals), the difference being the fee percentage
  \<open>TRADING_FEE * (1 / total_cost) * 100\<close>, which is 2.105 to three decimals. The volume
  and the other fields of the market play no part.
\<close>

theorem analyze_market_end_to_end:
  assumes "Market.active m" and "\<not> Market.closed m"
    and "Market.outcomes m = [''Yes'', ''No'']" and "outcome_prices m = [0.40, 0.55]"
  shows "\<exists>opp. analyze_market m = Inr (Some opp)
           \<and> market opp = m
           \<and> ArbitrageOpportunity.total_cost opp = 0.95
           \<and> \<bar>ArbitrageOpportunity.gross_profit_pct opp - 5.26\<bar> < 0.005
           \<and> \<bar>ArbitrageOpportunity.net_profit_pct opp - 3.16\<bar> < 0.005
           \<and> ArbitrageOpportunity.gross_profit_pct opp - ArbitrageOpportunity.net_profit_pct opp
               = TRADING_FEE * (1 / ArbitrageOpportunity.total_cost opp) * 100
           \<and> \<bar>TRADING_FEE * (1 / ArbitrageOpportunity.total_cost opp) * 100 - 2.105\<bar> < 0.0005"
  using assms
  by (simp add: analyze_market_def Let_def py_div_def py_index_def TRADING_FEE_def)

theorem analyze_market_end_to_end_witness:
  "\<exists>opp. analyze_market (binary_example ''Yes'' ''No'' 0.40 0.55) = Inr (Some opp)
         \<and> ArbitrageOpportunity.total_cost opp = 0.95
         \<and> \<bar>ArbitrageOpportunity.gross_profit_pct opp - 5.26\<bar> < 0.005
         \<and> \<bar>ArbitrageOpportunity.net_profit_pct opp - 3.16\<bar> < 0.005"
proof -
  have "Market.active (binary_example ''Yes'' ''No'' 0.40 0.55)"
    and "\<not> Market.closed (binary_example ''Yes'' ''No'' 0.40 0.55)"
    and "Market.outcomes (binary_example ''Yes'' ''No'' 0.40 0.55) = [''Yes'', ''No'']"
    and "outcome_prices (binary_example ''Yes'' ''No'' 0.40 0.55) = [0.40, 0.55]"
    by (simp_all add: binary_example_def)
  from analyze_market_end_to_end [OF this] show ?thesis by blast
qed

text \<open>
  Claim C1, as amended. For every market that is active, not closed, and has exactly two
  outcomes of different names whose prices \<open>p\<close> and \<open>q\<close> satisfy \<open>p + q < 1\<close> and
  \<open>p + q \<noteq> 0\<close>, \<open>_analyze_market\<close> returns an opportunity whose total cost is
  \<open>p + q\<close> and whose allocation has exactly the two entries \<open>p / total_cost\<close> and
  \<open>q / total_cost\<close>, which sum to 1. (On the reals the sum is exactly 1; \<open>scan\<close> then
  keeps the opportunity only if its net profit exceeds the configured threshold.)
\<close>

theorem analyze_market_binary_arbitrage:
  assumes "Market.active m" and "\<not> Market.closed m"
    and "Market.outcomes m = [a, b]" and "a \<noteq> b"
    and "outcome_prices m = [p, q]"
    and "p + q < 1" and "p + q \<noteq> 0"
  shows "\<exists>opp. analyze_market m = Inr (Some opp)
           \<and> ArbitrageOpportunity.total_cost opp = p + q
           \<and> optimal_allocation opp a = Some (p / ArbitrageOpportunity.total_cost opp)
           \<and> optimal_allocation opp b = Some (q / ArbitrageOpportunity.total_cost opp)
           \<and> dom (optimal_allocation opp) = {a, b}
           \<and> p / ArbitrageOpportunity.total_cost opp
               + q / ArbitrageOpportunity.total_cost opp = 1"
  using assms
  by (auto simp add: analyze_market_def Let_def py_div_def py_index_def
      add_divide_distrib [symmetric])

theorem analyze_market_binary_arbitrage_witness:
  "\<exists>opp. analyze_market (binary_example ''Yes'' ''No'' 0.30 0.60) = Inr (Some opp)
         \<and> ArbitrageOpportunity.total_cost opp = 0.30 + 0.60
         \<and> optimal_allocation opp ''Yes'' = Some (0.30 / ArbitrageOpportunity.total_cost opp)
         \<and> optimal_allocation opp ''No'' = Some (0.60 / ArbitrageOpportunity.total_cost opp)"
proof -
  have "Market.active (binary_example ''Yes'' ''No'' 0.30 0.60)"
    and "\<not> Market.closed (binary_example ''Yes'' ''No'' 0.30 0.60)"
    and "Market.outcomes (binary_example ''Yes'' ''No'' 0.30 0.60) = [''Yes'', ''No'']"
    and "''Yes'' \<noteq> ''No''"
    and "outcome_prices (binary_example ''Yes'' ''No'' 0.30 0.60) = [0.30, 0.60]"
    and "(0.30::real) + 0.60 < 1" and "(0.30::real) + 0.60 \<noteq> 0"
    by (simp_all add: binary_example_def)
  from analyze_market_binary_arbitrage [OF this] show ?thesis by blast
qed

text \<open>
  Claim C1 as it is stated fails on two markets with \<open>p + q < 1\<close>. With both prices 0
  the total cost is 0 and the division of the gross profit raises
  \<open>ZeroDivisionError\<close>: no opportunity is returned. With two outcomes of the same name
  and prices 0.2 and 0.6 the dictionary keeps one entry, 0.6 / 0.8, and the entries of
  the two outcomes sum to 1.5.
\<close>

theorem analyze_market_binary_arbitrage_counterexample:
  "analyze_market (binary_example ''Yes'' ''No'' 0 0) = Inl ZeroDivisionError
   \<and> analyze_market (binary_example ''Yes'' ''Yes'' 0.2 0.6) =
       Inr (Some \<lparr> market = binary_example ''Yes'' ''Yes'' 0.2 0.6, type = ''binary'',
                   total_cost = 0.8, gross_profit_pct = 25, net_profit_pct = 22.5,
                   optimal_allocation = [''Yes'' \<mapsto> 0.75] \<rparr>)
   \<and> the ([''Yes'' \<mapsto> 0.75::real] ''Yes'') + the ([''Yes'' \<mapsto> 0.75::real] ''Yes'') = 1.5"
  by (simp add: analyze_market_def binary_example_def py_div_def py_index_def TRADING_FEE_def)

text \<open>
  Claim C8, evaluated where it fails. On an active binary market whose two prices are 0,
  \<open>_analyze_market\<close> raises \<open>ZeroDivisionError\<close>; so does \<open>_find_inconsistencies\<close> on a
  market with a threshold, volume 10000 and YES and NO prices 0, in its in-market rule.
  The reach and dip rules guard the same division with \<open>max(price, 0.01)\<close>, and the
  cross-platform detector drops zero quotes; these two divisions have no guard.
\<close>

theorem zero_prices_raise:
  "analyze_market (binary_example ''Yes'' ''No'' 0 0) = Inl ZeroDivisionError
   \<and> find_inconsistencies ''BTC'' [reach_example ''z'' 100000 0 0 10000]
       = Inl ZeroDivisionError"
  by (simp add: analyze_market_def binary_example_def py_div_def find_inconsistencies_def
      reach_markets_def dip_markets_def all_threshold_def has_threshold_def reach_example_def
      spread_one_def and_then_def)


section \<open>Delta detector: results\<close>

lemma sort_key_distinct_keys:
  assumes m: "mset xs = mset ys" and s: "sorted (map f ys)" and d: "distinct (map f ys)"
  shows "sort_key f xs = ys"
proof (rule properties_for_sort_key)
  show "mset ys = mset xs" using m by simp
  show "sorted (map f ys)" by (rule s)
  fix k assume k: "k \<in> set ys"
  have inj: "inj_on f (set ys)" using d by (simp add: distinct_map)
  have dy: "distinct ys" using d by (simp add: distinct_map)
  have "filter_mset (\<lambda>x. f k = f x) (mset ys) = {#k#}"
  proof -
    have "filter (\<lambda>x. f k = f x) ys = filter (\<lambda>x. x = k) ys"
      by (rule filter_cong) (use inj k in \<open>auto dest: inj_onD\<close>)
    also have "\<dots> = [k]" using dy k by (induction ys) (auto simp: filter_empty_conv)
    finally show ?thesis by (metis mset_filter mset.simps mset_single_iff)
  qed
  then have "mset (filter (\<lambda>x. f k = f x) ys) = {#k#}" "mset (filter (\<lambda>x. f k = f x) xs) = {#k#}"
    using m by (simp_all add: mset_filter)
  then show "filter (\<lambda>x. f k = f x) ys = filter (\<lambda>x. f k = f x) xs"
    by (metis mset_single_iff_right)
qed

lemma and_then_Inr [simp]: "and_then (Inr xs) (Inr ys) = Inr (xs @ ys)"
  by (simp add: and_then_def)

lemma spread_scan_ok:
  assumes "\<forall>m \<in> set ms. yes_price m + no_price m \<noteq> 0"
  shows "\<exists>os. spread_scan tp ms = Inr os \<and> (\<forall>d \<in> set os. confidence d = 95)"
  using assms
proof (induction ms)
  case Nil
  then show ?case by simp
next
  case (Cons m ms)
  then obtain os where os: "spread_scan tp ms = Inr os" "\<forall>d \<in> set os. confidence d = 95"
    by auto
  from Cons.prems have "yes_price m + no_price m \<noteq> 0" by simp
  then have "\<exists>xs. spread_one tp m = Inr xs \<and> (\<forall>d \<in> set xs. confidence d = 95)"
    by (simp add: spread_one_def Let_def py_div_def)
  then obtain xs where xs: "spread_one tp m = Inr xs" "\<forall>d \<in> set xs. confidence d = 95"
    by blast
  show ?case using os xs by auto
qed

lemma ratio_positive:
  fixes a b :: real
  assumes "a < b" "b / a \<ge> 1.1"
  shows "0 < a"
proof (rule ccontr)
  assume "\<not> 0 < a"
  then consider "a = 0" | "a < 0" by fastforce
  then show False
  proof cases
    case 1
    with assms show False by simp
  next
    case 2
    have "(1::real) \<le> 1.1" by simp
    with assms(2) have "1 \<le> b / a" by linarith
    with 2 have "b \<le> a" by (simp add: pos_divide_le_eq neg_le_divide_eq)
    with assms(1) show False by simp
  qed
qed

lemma reach_group_selection:
  assumes t: "T1 < T2" "T2 < T3" "T2 / T1 \<ge> 1.1" "T3 / T2 \<ge> 1.1"
    and g: "mset ms = {#m1, m2, m3#}"
    and m: "reach_market m1 T1 y1" "reach_market m2 T2 y2" "reach_market m3 T3 y3"
  shows "reach_markets ms = [m1, m2, m3]" and "dip_markets ms = []" and "all_threshold ms = ms"
proof -
  have pos: "0 < T1" "0 < T2" "0 < T3"
    using ratio_positive [OF t(1) t(3)] t by simp_all
  have s: "set ms = {m1, m2, m3}"
    using g by (metis set_mset_mset set_mset_add_mset_insert set_mset_empty)
  have ht: "has_threshold m1" "has_threshold m2" "has_threshold m3"
    using m pos by (simp_all add: reach_market_def has_threshold_def)
  have dir: "\<forall>x \<in> set ms. direction x \<in> set [''above'', ''reach'']"
    using m s by (auto simp: reach_market_def)
  have f: "filter (\<lambda>m. has_threshold m \<and> direction m \<in> set [''above'', ''reach'']) ms = ms"
    using ht dir s by (auto simp: filter_id_conv)
  have "sort_key thr ms = [m1, m2, m3]"
    by (rule sort_key_distinct_keys) (use g m t in \<open>auto simp: thr_def reach_market_def\<close>)
  then show "reach_markets ms = [m1, m2, m3]" by (simp only: reach_markets_def f)
  have "filter (\<lambda>m. has_threshold m \<and> direction m = ''below'') ms = []"
    using dir by (auto simp: filter_empty_conv)
  then show "dip_markets ms = []" by (simp add: dip_markets_def)
  show "all_threshold ms = ms"
    using ht s by (auto simp: all_threshold_def filter_id_conv)
qed

lemma reach_group_result:
  assumes t: "T1 < T2" "T2 < T3" "T2 / T1 \<ge> 1.1" "T3 / T2 \<ge> 1.1"
    and g: "mset ms = {#m1, m2, m3#}"
    and m: "reach_market m1 T1 y1" "reach_market m2 T2 y2" "reach_market m3 T3 y3"
    and y: "0 < y1" "0 < y2" "0 < y3"
    and r: "reach_scan tp [m1, m2, m3] = Inr vs"
  shows "\<exists>os. find_inconsistencies tp ms = Inr os
           \<and> filter (\<lambda>d. confidence d = 90) os = filter (\<lambda>d. confidence d = 90) vs"
proof -
  note sel = reach_group_selection [OF t g m]
  have s: "set ms = {m1, m2, m3}"
    using g by (metis set_mset_mset set_mset_add_mset_insert set_mset_empty)
  have "\<forall>x \<in> set ms. yes_price x + no_price x \<noteq> 0"
    using s m y by (auto simp: reach_market_def)
  from spread_scan_ok [OF this, of tp]
  obtain os where os: "spread_scan tp ms = Inr os" "\<forall>d \<in> set os. confidence d = 95"
    by blast
  have "filter (\<lambda>d. confidence d = 90) os = []"
    using os(2) by (auto simp: filter_empty_conv)
  then show ?thesis
    unfolding find_inconsistencies_def sel r os(1) by (simp add: dip_scan.simps)
qed

text \<open>
  Claim C5. A topic group holds three reach-direction markets, in any order, with
  thresholds \<open>T1 < T2 < T3\<close> whose adjacent ratios are at least 1.1. When their YES
  prices are 0.5, 0.3, 0.1, \<open>_find_inconsistencies\<close> returns no reach violation (no
  opportunity of confidence 90); when they are 0.1, 0.3, 0.5 it returns exactly two, one
  for each adjacent pair, the higher market as \<open>event_a\<close> and the lower as \<open>event_b\<close>.
  Nothing is raised in either case.
\<close>

theorem delta_monotonicity:
  assumes t: "T1 < T2" "T2 < T3" "T2 / T1 \<ge> 1.1" "T3 / T2 \<ge> 1.1"
    and dec: "mset ms = {#a1, a2, a3#}"
      "reach_market a1 T1 0.5" "reach_market a2 T2 0.3" "reach_market a3 T3 0.1"
    and inc: "mset ns = {#b1, b2, b3#}"
      "reach_market b1 T1 0.1" "reach_market b2 T2 0.3" "reach_market b3 T3 0.5"
  shows "(\<exists>os. find_inconsistencies tp ms = Inr os
            \<and> filter (\<lambda>d. confidence d = 90) os = [])
       \<and> (\<exists>os. find_inconsistencies tp ns = Inr os
            \<and> filter (\<lambda>d. confidence d = 90) os =
                [\<lparr> event_a = b2, event_b = b1, topic = tp,
                    profit_potential = 200, confidence = 90 \<rparr>,
                 \<lparr> event_a = b3, event_b = b2, topic = tp,
                    profit_potential = 200 / 3, confidence = 90 \<rparr>])"
proof -
  have pos: "0 < T1" "0 < T2" "0 < T3"
    using ratio_positive [OF t(1) t(3)] t by simp_all
  have r: "\<not> T2 / T1 < 11 / 10" "\<not> T3 / T2 < 11 / 10"
    using t by simp_all
  have da: "threshold a1 = Some T1" "threshold a2 = Some T2" "threshold a3 = Some T3"
    "yes_price a1 = 0.5" "yes_price a2 = 0.3" "yes_price a3 = 0.1"
    using dec(2-4) by (auto simp: reach_market_def)
  have "reach_scan tp [a1, a2, a3] = Inr []"
    using pos r by (simp add: reach_pair_def py_div_def thr_def da)
  from reach_group_result [OF t dec _ _ _ this]
  have A: "\<exists>os. find_inconsistencies tp ms = Inr os
            \<and> filter (\<lambda>d. confidence d = 90) os = []"
    by simp
  have db: "threshold b1 = Some T1" "threshold b2 = Some T2" "threshold b3 = Some T3"
    "yes_price b1 = 0.1" "yes_price b2 = 0.3" "yes_price b3 = 0.5"
    using inc(2-4) by (auto simp: reach_market_def)
  have "reach_scan tp [b1, b2, b3] =
          Inr [\<lparr> event_a = b2, event_b = b1, topic = tp,
                    profit_potential = 200, confidence = 90 \<rparr>,
                 \<lparr> event_a = b3, event_b = b2, topic = tp,
                    profit_potential = 200 / 3, confidence = 90 \<rparr>]"
    using pos r by (simp add: reach_pair_def py_div_def thr_def db Let_def)
  from reach_group_result [OF t inc _ _ _ this]
  have B: "\<exists>os. find_inconsistencies tp ns = Inr os
            \<and> filter (\<lambda>d. confidence d = 90) os =
                [\<lparr> event_a = b2, event_b = b1, topic = tp,
                    profit_potential = 200, confidence = 90 \<rparr>,
                 \<lparr> event_a = b3, event_b = b2, topic = tp,
                    profit_potential = 200 / 3, confidence = 90 \<rparr>]"
    by simp
  show ?thesis using A B by blast
qed

theorem delta_monotonicity_witness:
  "(\<exists>os. find_inconsistencies ''BTC''
            [reach_example ''a3'' 150000 0.1 0.9 2000, reach_example ''a1'' 100000 0.5 0.5 2000,
             reach_example ''a2'' 120000 0.3 0.7 2000] = Inr os
          \<and> filter (\<lambda>d. confidence d = 90) os = [])
   \<and> (\<exists>os. find_inconsistencies ''BTC''
            [reach_example ''b2'' 120000 0.3 0.7 2000, reach_example ''b3'' 150000 0.5 0.5 2000,
             reach_example ''b1'' 100000 0.1 0.9 2000] = Inr os
          \<and> length (filter (\<lambda>d. confidence d = 90) os) = 2)"
proof -
  have t: "(100000::real) < 120000" "(120000::real) < 150000"
    "(120000::real) / 100000 \<ge> 1.1" "(150000::real) / 120000 \<ge> 1.1"
    by simp_all
  have dec: "mset [reach_example ''a3'' 150000 0.1 0.9 2000, reach_example ''a1'' 100000 0.5 0.5 2000,
             reach_example ''a2'' 120000 0.3 0.7 2000]
      = {#reach_example ''a1'' 100000 0.5 0.5 2000, reach_example ''a2'' 120000 0.3 0.7 2000,
          reach_example ''a3'' 150000 0.1 0.9 2000#}"
    "reach_market (reach_example ''a1'' 100000 0.5 0.5 2000) 100000 0.5"
    "reach_market (reach_example ''a2'' 120000 0.3 0.7 2000) 120000 0.3"
    "reach_market (reach_example ''a3'' 150000 0.1 0.9 2000) 150000 0.1"
    by (simp_all add: reach_market_def reach_example_def)
  have inc: "mset [reach_example ''b2'' 120000 0.3 0.7 2000, reach_example ''b3'' 150000 0.5 0.5 2000,
             reach_example ''b1'' 100000 0.1 0.9 2000]
      = {#reach_example ''b1'' 100000 0.1 0.9 2000, reach_example ''b2'' 120000 0.3 0.7 2000,
          reach_example ''b3'' 150000 0.5 0.5 2000#}"
    "reach_market (reach_example ''b1'' 100000 0.1 0.9 2000) 100000 0.1"
    "reach_market (reach_example ''b2'' 120000 0.3 0.7 2000) 120000 0.3"
    "reach_market (reach_example ''b3'' 150000 0.5 0.5 2000) 150000 0.5"
    by (simp_all add: reach_market_def reach_example_def)
  from delta_monotonicity [OF t dec inc, of "''BTC''"] show ?thesis by force
qed

lemma and_then_InrD:
  assumes "and_then r s = Inr os"
  obtains xs ys where "r = Inr xs" "s = Inr ys" "os = xs @ ys"
  using assms by (auto simp: and_then_def split: sum.splits)

lemma reach_scan_adjacent:
  assumes "reach_scan tp (pre @ lower # higher # post) = Inr os"
  shows "\<exists>xs. reach_pair tp lower higher = Inr xs \<and> set xs \<subseteq> set os"
  using assms
proof (induction pre arbitrary: os)
  case Nil
  then show ?case by (auto elim!: and_then_InrD)
next
  case (Cons p pre)
  show ?case
  proof (cases pre)
    case Nil
    with Cons.prems have "and_then (reach_pair tp p lower) (reach_scan tp ([] @ lower # higher # post)) = Inr os"
      by simp
    then obtain xs ys where "reach_scan tp ([] @ lower # higher # post) = Inr ys" "os = xs @ ys"
      by (auto elim!: and_then_InrD)
    with Cons.IH [of ys] Nil show ?thesis by auto
  next
    case (Cons q qs)
    with Cons.prems have "and_then (reach_pair tp p q) (reach_scan tp (pre @ lower # higher # post)) = Inr os"
      by simp
    then obtain xs ys where "reach_scan tp (pre @ lower # higher # post) = Inr ys" "os = xs @ ys"
      by (auto elim!: and_then_InrD)
    with Cons.IH [of ys] show ?thesis by auto
  qed
qed

lemma dip_scan_adjacent:
  assumes "dip_scan tp (pre @ lower # higher # post) = Inr os"
  shows "\<exists>xs. dip_pair tp lower higher = Inr xs \<and> set xs \<subseteq> set os"
  using assms
proof (induction pre arbitrary: os)
  case Nil
  then show ?case by (auto elim!: and_then_InrD)
next
  case (Cons p pre)
  show ?case
  proof (cases pre)
    case Nil
    with Cons.prems have "and_then (dip_pair tp p lower) (dip_scan tp ([] @ lower # higher # post)) = Inr os"
      by simp
    then obtain xs ys where "dip_scan tp ([] @ lower # higher # post) = Inr ys" "os = xs @ ys"
      by (auto elim!: and_then_InrD)
    with Cons.IH [of ys] Nil show ?thesis by auto
  next
    case (Cons q qs)
    with Cons.prems have "and_then (dip_pair tp p q) (dip_scan tp (pre @ lower # higher # post)) = Inr os"
      by simp
    then obtain xs ys where "dip_scan tp (pre @ lower # higher # post) = Inr ys" "os = xs @ ys"
      by (auto elim!: and_then_InrD)
    with Cons.IH [of ys] show ?thesis by auto
  qed
qed

lemma spread_scan_member:
  assumes "spread_scan tp ms = Inr os" and "m \<in> set ms"
  shows "\<exists>xs. spread_one tp m = Inr xs \<and> set xs \<subseteq> set os"
  using assms
proof (induction ms arbitrary: os)
  case Nil
  then show ?case by simp
next
  case (Cons x ms)
  from Cons.prems(1) obtain xs ys where
    s: "spread_one tp x = Inr xs" "spread_scan tp ms = Inr ys" "os = xs @ ys"
    by (auto elim!: and_then_InrD)
  show ?case
  proof (cases "m = x")
    case True
    with s show ?thesis by auto
  next
    case False
    with Cons.prems(2) have "m \<in> set ms" by simp
    from Cons.IH [OF s(2) this] s(3) show ?thesis by auto
  qed
qed

lemma reach_pair_near_miss:
  assumes "reach_pair tp lower higher = Inr xs" and "d \<in> set xs"
  shows "near_miss_ok d"
  using assms
  by (auto simp: reach_pair_def near_miss_ok_def py_div_def Let_def split: if_splits)

lemma reach_scan_near_miss:
  assumes "reach_scan tp ms = Inr os" and "d \<in> set os"
  shows "near_miss_ok d"
  using assms
proof (induction tp ms arbitrary: os rule: reach_scan.induct)
  case (1 tp lower higher rest)
  from "1.prems"(1) obtain xs ys where
    s: "reach_pair tp lower higher = Inr xs" "reach_scan tp (higher # rest) = Inr ys" "os = xs @ ys"
    by (auto elim!: and_then_InrD)
  with "1.prems"(2) consider "d \<in> set xs" | "d \<in> set ys" by auto
  then show ?case
    using reach_pair_near_miss [OF s(1)] "1.IH" [OF s(2)] by cases auto
qed auto

lemma dip_scan_confidence:
  assumes "dip_scan tp ms = Inr os" and "d \<in> set os"
  shows "confidence d = 85"
  using assms
proof (induction tp ms arbitrary: os rule: dip_scan.induct)
  case (1 tp lower higher rest)
  from "1.prems"(1) obtain xs ys where
    s: "dip_pair tp lower higher = Inr xs" "dip_scan tp (higher # rest) = Inr ys" "os = xs @ ys"
    by (auto elim!: and_then_InrD)
  have "\<forall>x \<in> set xs. confidence x = 85"
    using s(1) by (auto simp: dip_pair_def py_div_def Let_def split: if_splits)
  with "1.prems"(2) s(3) "1.IH" [OF s(2)] show ?case by auto
qed auto

lemma spread_scan_confidence:
  assumes "spread_scan tp ms = Inr os" and "d \<in> set os"
  shows "confidence d = 95"
  using assms
proof (induction ms arbitrary: os)
  case Nil
  then show ?case by simp
next
  case (Cons x ms)
  from Cons.prems(1) obtain xs ys where
    s: "spread_one tp x = Inr xs" "spread_scan tp ms = Inr ys" "os = xs @ ys"
    by (auto elim!: and_then_InrD)
  have "\<forall>x \<in> set xs. confidence x = 95"
    using s(1) by (auto simp: spread_one_def py_div_def Let_def split: if_splits)
  with Cons.prems(2) s(3) Cons.IH [OF s(2)] show ?case by auto
qed

text \<open>
  Claim C6, as amended. The near-miss advisory is the \<open>elif\<close> branch of the reach
  violation, so the two are alternatives for one pair; the other rules are applied
  independently. Whenever \<open>_find_inconsistencies\<close> returns: an adjacent pair of the
  sorted reach markets with threshold ratio at least 1.1, higher YES price above the
  lower one and lower YES price above 0.001 gets the confidence-90 violation and no
  confidence-60 advisory, however close the two prices are; an adjacent pair of the
  sorted dip markets whose lower-threshold YES price is above the higher one's (itself
  above 0.001) gets the confidence-85 violation; and every market with a threshold,
  YES + NO below 0.95 and volume above 5000 gets the confidence-95 opportunity.
\<close>

theorem near_miss_is_elif_of_violation:
  assumes run: "find_inconsistencies tp ms = Inr os"
  shows "(\<forall>pre lower higher post.
            reach_markets ms = pre @ lower # higher # post
            \<and> thr higher / thr lower \<ge> 1.1
            \<and> yes_price higher > yes_price lower \<and> yes_price lower > 0.001
            \<longrightarrow> \<lparr> event_a = higher, event_b = lower, topic = tp,
                   profit_potential =
                     min ((yes_price higher - yes_price lower) / max (yes_price lower) 0.01 * 100) 500,
                   confidence = 90 \<rparr> \<in> set os
                \<and> (\<forall>d \<in> set os. event_a d = higher \<and> event_b d = lower \<longrightarrow> confidence d \<noteq> 60))
       \<and> (\<forall>pre lower higher post.
            dip_markets ms = pre @ lower # higher # post
            \<and> yes_price lower > yes_price higher \<and> yes_price higher > 0.001
            \<longrightarrow> \<lparr> event_a = lower, event_b = higher, topic = tp,
                   profit_potential =
                     min ((yes_price lower - yes_price higher) / max (yes_price higher) 0.01 * 100) 500,
                   confidence = 85 \<rparr> \<in> set os)
       \<and> (\<forall>m \<in> set ms.
            has_threshold m \<and> yes_price m + no_price m < 0.95 \<and> ParsedMarket.volume m > 5000
            \<longrightarrow> \<lparr> event_a = m, event_b = m, topic = tp,
                   profit_potential = (1 - (yes_price m + no_price m)) / (yes_price m + no_price m) * 100,
                   confidence = 95 \<rparr> \<in> set os)"
proof -
  from run obtain rs ds ss where
    parts: "reach_scan tp (reach_markets ms) = Inr rs" "dip_scan tp (dip_markets ms) = Inr ds"
      "spread_scan tp (all_threshold ms) = Inr ss" "os = rs @ ds @ ss"
    unfolding find_inconsistencies_def by (auto elim!: and_then_InrD)
  have conf60: "\<not> (yes_price (event_a d) > yes_price (event_b d) \<and> yes_price (event_b d) > 0.001)"
    if "d \<in> set os" "confidence d = 60" for d
  proof -
    from that(1) parts(4) consider "d \<in> set rs" | "d \<in> set ds" | "d \<in> set ss" by auto
    then show ?thesis
    proof cases
      case 1
      from reach_scan_near_miss [OF parts(1) this] that(2) show ?thesis
        by (simp add: near_miss_ok_def)
    next
      case 2
      from dip_scan_confidence [OF parts(2) this] that(2) show ?thesis by simp
    next
      case 3
      from spread_scan_confidence [OF parts(3) this] that(2) show ?thesis by simp
    qed
  qed
  have A: "\<lparr> event_a = higher, event_b = lower, topic = tp,
                   profit_potential =
                     min ((yes_price higher - yes_price lower) / max (yes_price lower) 0.01 * 100) 500,
                   confidence = 90 \<rparr> \<in> set os
                \<and> (\<forall>d \<in> set os. event_a d = higher \<and> event_b d = lower \<longrightarrow> confidence d \<noteq> 60)"
    if h: "reach_markets ms = pre @ lower # higher # post" "thr higher / thr lower \<ge> 1.1"
      "yes_price higher > yes_price lower" "yes_price lower > 0.001"
    for pre lower higher post
  proof -
    from parts(1) h(1) have "reach_scan tp (pre @ lower # higher # post) = Inr rs" by simp
    from reach_scan_adjacent [OF this] obtain xs where
      xs: "reach_pair tp lower higher = Inr xs" "set xs \<subseteq> set rs" by blast
    have nz: "thr lower \<noteq> 0" using h(2) by auto
    have "\<not> thr higher / thr lower < 11 / 10" using h(2) by simp
    with xs(1) nz h(3,4) have "xs = [\<lparr> event_a = higher, event_b = lower, topic = tp,
                   profit_potential =
                     min ((yes_price higher - yes_price lower) / max (yes_price lower) 0.01 * 100) 500,
                   confidence = 90 \<rparr>]"
      by (auto simp: reach_pair_def py_div_def Let_def max_def split: if_splits)
    with xs(2) parts(4) have 1: "\<lparr> event_a = higher, event_b = lower, topic = tp,
                   profit_potential =
                     min ((yes_price higher - yes_price lower) / max (yes_price lower) 0.01 * 100) 500,
                   confidence = 90 \<rparr> \<in> set os" by auto
    have 2: "\<forall>d \<in> set os. event_a d = higher \<and> event_b d = lower \<longrightarrow> confidence d \<noteq> 60"
      using conf60 h(3,4) by blast
    from 1 2 show ?thesis by blast
  qed
  have B: "\<lparr> event_a = lower, event_b = higher, topic = tp,
                   profit_potential =
                     min ((yes_price lower - yes_price higher) / max (yes_price higher) 0.01 * 100) 500,
                   confidence = 85 \<rparr> \<in> set os"
    if h: "dip_markets ms = pre @ lower # higher # post"
      "yes_price lower > yes_price higher" "yes_price higher > 0.001"
    for pre lower higher post
  proof -
    from parts(2) h(1) have "dip_scan tp (pre @ lower # higher # post) = Inr ds" by simp
    from dip_scan_adjacent [OF this] obtain xs where
      xs: "dip_pair tp lower higher = Inr xs" "set xs \<subseteq> set ds" by blast
    with h(2,3) have "xs = [\<lparr> event_a = lower, event_b = higher, topic = tp,
                   profit_potential =
                     min ((yes_price lower - yes_price higher) / max (yes_price higher) 0.01 * 100) 500,
                   confidence = 85 \<rparr>]"
      by (auto simp: dip_pair_def py_div_def Let_def max_def split: if_splits)
    with xs(2) parts(4) show ?thesis by auto
  qed
  have C: "\<lparr> event_a = m, event_b = m, topic = tp,
                   profit_potential = (1 - (yes_price m + no_price m)) / (yes_price m + no_price m) * 100,
                   confidence = 95 \<rparr> \<in> set os"
    if h: "m \<in> set ms" "has_threshold m" "yes_price m + no_price m < 0.95" "ParsedMarket.volume m > 5000"
    for m
  proof -
    from h(1,2) have "m \<in> set (all_threshold ms)" by (simp add: all_threshold_def)
    from spread_scan_member [OF parts(3) this] obtain xs where
      xs: "spread_one tp m = Inr xs" "set xs \<subseteq> set ss" by blast
    with h(3,4) have "xs = [\<lparr> event_a = m, event_b = m, topic = tp,
                   profit_potential = (1 - (yes_price m + no_price m)) / (yes_price m + no_price m) * 100,
                   confidence = 95 \<rparr>]"
      by (auto simp: spread_one_def py_div_def Let_def split: if_splits)
    with xs(2) parts(4) show ?thesis by auto
  qed
  show ?thesis using A B C by blast
qed

theorem near_miss_is_elif_of_violation_witness:
  "find_inconsistencies ''BTC''
     [reach_example ''hi'' 150000 0.11 0.89 2000, reach_example ''lo'' 100000 0.10 0.9 2000] =
   Inr [\<lparr> event_a = reach_example ''hi'' 150000 0.11 0.89 2000,
          event_b = reach_example ''lo'' 100000 0.10 0.9 2000, topic = ''BTC'',
          profit_potential = 10, confidence = 90 \<rparr>]
   \<and> \<lparr> event_a = reach_example ''hi'' 150000 0.11 0.89 2000,
        event_b = reach_example ''lo'' 100000 0.10 0.9 2000, topic = ''BTC'',
        profit_potential =
          min ((yes_price (reach_example ''hi'' 150000 0.11 0.89 2000)
                - yes_price (reach_example ''lo'' 100000 0.10 0.9 2000))
               / max (yes_price (reach_example ''lo'' 100000 0.10 0.9 2000)) 0.01 * 100) 500,
        confidence = 90 \<rparr>
      \<in> set [\<lparr> event_a = reach_example ''hi'' 150000 0.11 0.89 2000,
                 event_b = reach_example ''lo'' 100000 0.10 0.9 2000, topic = ''BTC'',
                 profit_potential = 10, confidence = 90 \<rparr>]"
proof -
  have run: "find_inconsistencies ''BTC''
     [reach_example ''hi'' 150000 0.11 0.89 2000, reach_example ''lo'' 100000 0.10 0.9 2000] =
   Inr [\<lparr> event_a = reach_example ''hi'' 150000 0.11 0.89 2000,
          event_b = reach_example ''lo'' 100000 0.10 0.9 2000, topic = ''BTC'',
          profit_potential = 10, confidence = 90 \<rparr>]"
    by (simp add: find_inconsistencies_def reach_markets_def dip_markets_def all_threshold_def
        has_threshold_def reach_example_def spread_one_def and_then_def reach_pair_def thr_def
        py_div_def)
  have adj: "reach_markets
     [reach_example ''hi'' 150000 0.11 0.89 2000, reach_example ''lo'' 100000 0.10 0.9 2000] =
     [] @ reach_example ''lo'' 100000 0.10 0.9 2000
        # reach_example ''hi'' 150000 0.11 0.89 2000 # []"
    by (simp add: reach_markets_def has_threshold_def reach_example_def thr_def)
  have cond: "thr (reach_example ''hi'' 150000 0.11 0.89 2000)
        / thr (reach_example ''lo'' 100000 0.10 0.9 2000) \<ge> 1.1"
    "yes_price (reach_example ''hi'' 150000 0.11 0.89 2000)
       > yes_price (reach_example ''lo'' 100000 0.10 0.9 2000)"
    "yes_price (reach_example ''lo'' 100000 0.10 0.9 2000) > 0.001"
    by (simp_all add: reach_example_def thr_def)
  from near_miss_is_elif_of_violation [OF run] adj cond run show ?thesis by blast
qed

text \<open>
  Claim C6 as it is stated fails on the pair of reach markets at 100000 and 150000 with
  YES prices 0.10 and 0.11: the pair meets the violation condition and the near-miss
  condition, and the detector returns the confidence-90 violation alone.
\<close>

theorem near_miss_is_elif_of_violation_counterexample:
  "yes_price (reach_example ''hi'' 150000 0.11 0.89 2000)
     > yes_price (reach_example ''lo'' 100000 0.10 0.9 2000)
   \<and> yes_price (reach_example ''lo'' 100000 0.10 0.9 2000) > 0.001
   \<and> thr (reach_example ''hi'' 150000 0.11 0.89 2000)
        / thr (reach_example ''lo'' 100000 0.10 0.9 2000) \<ge> 1.1
   \<and> \<bar>yes_price (reach_example ''hi'' 150000 0.11 0.89 2000)
        - yes_price (reach_example ''lo'' 100000 0.10 0.9 2000)\<bar> < 0.02
   \<and> yes_price (reach_example ''lo'' 100000 0.10 0.9 2000) > 0.05
   \<and> find_inconsistencies ''BTC''
        [reach_example ''lo'' 100000 0.10 0.9 2000, reach_example ''hi'' 150000 0.11 0.89 2000] =
      Inr [\<lparr> event_a = reach_example ''hi'' 150000 0.11 0.89 2000,
             event_b = reach_example ''lo'' 100000 0.10 0.9 2000, topic = ''BTC'',
             profit_potential = 10, confidence = 90 \<rparr>]"
  by (simp add: find_inconsistencies_def reach_markets_def dip_markets_def all_threshold_def
      has_threshold_def reach_example_def spread_one_def and_then_def reach_pair_def thr_def
      py_div_def)

section \<open>Topic extractor: results\<close>

lemma capitalized_word_find:
  "capitalized_word ws =
     (case find eligible (map (py_strip strip_chars) ws) of
        Some clean \<Rightarrow> take 12 clean
      | None \<Rightarrow> ''OTHER'')"
  by (induction ws) (simp_all add: eligible_def Let_def)

text \<open>
  Claim C7, as amended. For every question text, the topic extractor returns the tag of
  the first keyword category, in declaration order, one of whose keywords occurs in the
  lower-cased question; when no category keyword occurs it returns the first capitalised
  word of the question that is longer than two characters and not a skip word, cut to 12
  characters, and \<open>OTHER\<close> only when there is no such word.
\<close>

theorem extract_topic_first_match:
  "extract_topic text =
     (case first_category text of Some tag \<Rightarrow> tag | None \<Rightarrow> first_capitalized text)"
  by (simp add: extract_topic_def first_category_def categories_def Let_def
      first_capitalized_def capitalized_word_find)

theorem extract_topic_first_match_witness:
  "extract_topic ''Will Bitcoin rally after the Fed cuts the interest rate?'' = ''BTC''
   \<and> first_category ''Will Bitcoin rally after the Fed cuts the interest rate?'' = Some ''BTC''"
proof -
  have "first_category ''Will Bitcoin rally after the Fed cuts the interest rate?'' = Some ''BTC''"
    by code_simp
  with extract_topic_first_match [of "''Will Bitcoin rally after the Fed cuts the interest rate?''"]
  show ?thesis by simp
qed

text \<open>
  Claim C7 as it is stated fails on two questions. In the first, one keyword of BTC and
  two of FED\_RATE occur: the highest hit count is that of FED\_RATE, and the extractor
  returns BTC, the earlier category. In the second no category keyword occurs, and the
  extractor returns the capitalised word Apple, not \<open>OTHER\<close>.
\<close>

theorem extract_topic_counterexample:
  "extract_topic ''Will Bitcoin rally after the Fed cuts the interest rate?'' = ''BTC''
   \<and> hits [''bitcoin'', ''btc''] ''Will Bitcoin rally after the Fed cuts the interest rate?'' = 1
   \<and> hits [''fed'', ''interest rate'', ''federal reserve'']
        ''Will Bitcoin rally after the Fed cuts the interest rate?'' = 2
   \<and> topic_by_hits ''Will Bitcoin rally after the Fed cuts the interest rate?'' = ''FED_RATE''
   \<and> first_category ''Will Apple release a car?'' = None
   \<and> topic_by_hits ''Will Apple release a car?'' = ''OTHER''
   \<and> extract_topic ''Will Apple release a car?'' = ''Apple''"
  by code_simp

section \<open>Event matcher: results\<close>

lemma calculate_similarity_formula:
  "calculate_similarity m1 m2 kw =
     (let kw1 = (if kw = {} then extract_keywords (PlatformMarket.question m1) else kw);
          kw2 = extract_keywords (PlatformMarket.question m2)
      in if kw1 \<inter> kw2 = {} then 0
         else min 1 (real (card (kw1 \<inter> kw2)) / real (card (kw1 \<union> kw2))
                + (if kw1 \<inter> kw2 \<inter> ENTITIES \<noteq> {} then 0.2 else 0)
                + (if kw1 \<inter> kw2 \<inter> YEARS \<noteq> {} then 0.15 else 0)))"
  by (auto simp: calculate_similarity_def Let_def min_def)

lemma calculate_similarity_disjoint:
  assumes "extract_keywords (PlatformMarket.question m1) \<inter> extract_keywords (PlatformMarket.question m2) = {}"
  shows "calculate_similarity m1 m2 (extract_keywords (PlatformMarket.question m1)) = 0"
  using assms by (simp add: calculate_similarity_def Let_def)

lemma example_score:
  assumes a: "extract_keywords (PlatformMarket.question a) = {''trump'', ''2024'', ''election''}"
    and b: "extract_keywords (PlatformMarket.question b) = {''trump'', ''2024'', ''win''}"
  shows "calculate_similarity a b (extract_keywords (PlatformMarket.question a)) = 0.85"
proof -
  define K1 :: "string set" where "K1 = {''trump'', ''2024'', ''election''}"
  define K2 :: "string set" where "K2 = {''trump'', ''2024'', ''win''}"
  have i: "K1 \<inter> K2 = {''trump'', ''2024''}"
    by (auto simp: K1_def K2_def)
  have u: "K1 \<union> K2 = {''trump'', ''2024'', ''election'', ''win''}"
    by (auto simp: K1_def K2_def)
  have ci: "card (K1 \<inter> K2) = 2" unfolding i by simp
  have cu: "card (K1 \<union> K2) = 4" unfolding u by simp
  have ne: "K1 \<noteq> {}" "K2 \<noteq> {}" "K1 \<inter> K2 \<noteq> {}"
    unfolding i by (simp_all add: K1_def K2_def)
  have e: "K1 \<inter> K2 \<inter> ENTITIES \<noteq> {}"
    unfolding i by (simp add: ENTITIES_def)
  have y: "K1 \<inter> K2 \<inter> YEARS \<noteq> {}"
    unfolding i by (simp add: YEARS_def)
  have "calculate_similarity a b K1 = 0.85"
    using a b by (simp add: calculate_similarity_def Let_def K1_def [symmetric] K2_def [symmetric]
        ne ci cu e y)
  then show ?thesis by (simp add: a K1_def)
qed

lemma example_match:
  assumes a: "extract_keywords (PlatformMarket.question a) = {''trump'', ''2024'', ''election''}"
    and b: "extract_keywords (PlatformMarket.question b) = {''trump'', ''2024'', ''win''}"
    and p: "platform a \<noteq> platform b" and k: "market_key a \<noteq> market_key b"
    and t: "th \<le> 0.85"
  shows "match_markets gen_id th [a, b] =
           [\<lparr> event_id = gen_id a, name = take 80 (PlatformMarket.question a),
               category = PlatformMarket.category a,
               markets = [(platform a, a), (platform b, b)], confidence = 0.85,
               event_keywords = {''trump'', ''2024'', ''election''},
               needs_verification = True \<rparr>]"
proof -
  have s: "calculate_similarity a b {''trump'', ''2024'', ''election''} = 0.85"
    using example_score [OF a b] by (simp add: a)
  have g: "by_platform [a, b] = [(platform a, [a]), (platform b, [b])]"
    using p by (simp add: by_platform_def)
  have f: "find_matches th a {''trump'', ''2024'', ''election''} {} [(platform b, [b])]
             = [(b, 0.85)]"
    using t by (simp add: s)
  show ?thesis
    using k p unfolding match_markets_def g
    by (simp add: a f Let_def del: find_matches.simps)
qed

lemma group_insert_keys: "fst ` set (group_insert m d) = insert (platform m) (fst ` set d)"
  by (induction m d rule: group_insert.induct) auto

lemma group_insert_ok:
  assumes "groups_ok S d" and "m \<in> S"
  shows "groups_ok S (group_insert m d)"
  using assms
proof (induction m d rule: group_insert.induct)
  case (1 m)
  then show ?case by (simp add: groups_ok_def)
next
  case (2 m p ms rest)
  show ?case
  proof (cases "p = platform m")
    case True
    with "2.prems" show ?thesis by (auto simp: groups_ok_def)
  next
    case False
    from "2.prems" have r: "groups_ok S rest" by (auto simp: groups_ok_def)
    from "2.IH" [OF False r "2.prems"(2)] have i: "groups_ok S (group_insert m rest)" .
    have "p \<notin> fst ` set (group_insert m rest)"
      using "2.prems"(1) False by (auto simp: group_insert_keys groups_ok_def)
    with i "2.prems" False show ?thesis by (auto simp: groups_ok_def)
  qed
qed

lemma foldl_group_insert_ok:
  assumes "groups_ok S d" and "set ms \<subseteq> S"
  shows "groups_ok S (foldl (\<lambda>d m. group_insert m d) d ms)"
  using assms by (induction ms arbitrary: d) (auto intro: group_insert_ok)

lemma by_platform_ok: "groups_ok (set ms) (by_platform ms)"
  unfolding by_platform_def
  by (rule foldl_group_insert_ok) (simp_all add: groups_ok_def)

lemma best_match_loop_none:
  assumes "\<forall>c \<in> set cs. calculate_similarity m c kws = 0"
  shows "best_match_loop thresh m kws used None 0 cs = None"
  using assms by (induction cs) (simp_all add: Let_def)

lemma find_matches_none:
  assumes "\<forall>(p, g) \<in> set others. \<forall>c \<in> set g. calculate_similarity m c kws = 0"
  shows "find_matches thresh m kws used others = []"
  using assms
proof (induction others)
  case Nil
  then show ?case by simp
next
  case (Cons pg others)
  obtain p g where pg: "pg = (p, g)" by (cases pg)
  with Cons.prems have "\<forall>c \<in> set g. calculate_similarity m c kws = 0" by auto
  then have "best_match_loop thresh m kws used None 0 g = None"
    by (rule best_match_loop_none)
  with Cons pg show ?case by simp
qed

lemma match_loop_none:
  assumes "\<forall>m \<in> set main. \<forall>(p, g) \<in> set others. \<forall>c \<in> set g.
             calculate_similarity m c (extract_keywords (PlatformMarket.question m)) = 0"
  shows "fst (match_loop gen_id thresh others main (matched, used)) = matched"
  using assms
proof (induction main arbitrary: used)
  case Nil
  then show ?case by simp
next
  case (Cons m main)
  then have f: "find_matches thresh m (extract_keywords (PlatformMarket.question m)) used others = []"
    by (intro find_matches_none) auto
  from Cons have IH: "\<And>used. fst (match_loop gen_id thresh others main (matched, used)) = matched"
    by auto
  show ?case by (simp add: Let_def f IH)
qed

lemma match_markets_none:
  assumes "\<forall>a \<in> set ms. \<forall>b \<in> set ms. platform a \<noteq> platform b \<longrightarrow>
             extract_keywords (PlatformMarket.question a) \<inter> extract_keywords (PlatformMarket.question b) = {}"
  shows "match_markets gen_id thresh ms = []"
proof (cases "by_platform ms")
  case Nil
  then show ?thesis by (simp add: match_markets_def)
next
  case (Cons pg others)
  obtain mp main where pg: "pg = (mp, main)" by (cases pg)
  have ok: "groups_ok (set ms) ((mp, main) # others)"
    using by_platform_ok [of ms] Cons pg by simp
  have "calculate_similarity m c (extract_keywords (PlatformMarket.question m)) = 0"
    if "m \<in> set main" "(p, g) \<in> set others" "c \<in> set g" for m p g c
  proof -
    from that(2) have "p \<in> fst ` set others" by force
    with ok that have "platform m = mp" "m \<in> set ms" "platform c = p" "c \<in> set ms" "p \<noteq> mp"
      by (auto simp: groups_ok_def)
    with assms have "extract_keywords (PlatformMarket.question m) \<inter> extract_keywords (PlatformMarket.question c) = {}"
      by blast
    then show ?thesis by (rule calculate_similarity_disjoint)
  qed
  then have "fst (match_loop gen_id thresh others main ([], {})) = []"
    by (intro match_loop_none) auto
  then show ?thesis by (simp add: match_markets_def Cons pg)
qed

text \<open>
  Claim C9. The similarity score is the Jaccard index of the two keyword sets, plus 0.2
  when a shared keyword is in the entity list, plus 0.15 when a shared keyword is a
  year from 2024 to 2028, capped at 1.0; it is 0 when no keyword is shared (an empty set
  included). Two markets with the keyword sets \<open>{trump, 2024, election}\<close> and
  \<open>{trump, 2024, win}\<close> score 0.85, and \<open>match_markets\<close> with a threshold of at most
  0.85 (the default is 0.45, and the cross-platform scanner sets 0.5), given the two on
  different platforms (under different keys), returns the one event that holds both,
  with confidence 0.85. Two markets that share no keyword score 0, and a
  list of markets no two of which, on different platforms, share a keyword yields no
  event, whatever the threshold and the questions are.
\<close>

theorem similarity_is_jaccard_with_bonuses:
  "calculate_similarity ma mb kw =
     (let kw1 = (if kw = {} then extract_keywords (PlatformMarket.question ma) else kw);
          kw2 = extract_keywords (PlatformMarket.question mb)
      in if kw1 \<inter> kw2 = {} then 0
         else min 1 (real (card (kw1 \<inter> kw2)) / real (card (kw1 \<union> kw2))
                + (if kw1 \<inter> kw2 \<inter> ENTITIES \<noteq> {} then 0.2 else 0)
                + (if kw1 \<inter> kw2 \<inter> YEARS \<noteq> {} then 0.15 else 0)))
   \<and> (extract_keywords (PlatformMarket.question a) = {''trump'', ''2024'', ''election''}
        \<and> extract_keywords (PlatformMarket.question b) = {''trump'', ''2024'', ''win''}
        \<and> platform a \<noteq> platform b \<and> market_key a \<noteq> market_key b \<and> th \<le> 0.85
      \<longrightarrow> calculate_similarity a b (extract_keywords (PlatformMarket.question a)) = 0.85
          \<and> DEFAULT_SIMILARITY_THRESHOLD \<le> 0.85
          \<and> match_markets gen_id th [a, b] =
               [\<lparr> event_id = gen_id a, name = take 80 (PlatformMarket.question a),
                   category = PlatformMarket.category a,
                   markets = [(platform a, a), (platform b, b)], confidence = 0.85,
                   event_keywords = {''trump'', ''2024'', ''election''},
                   needs_verification = True \<rparr>])
   \<and> (extract_keywords (PlatformMarket.question c) \<inter> extract_keywords (PlatformMarket.question d) = {}
      \<longrightarrow> calculate_similarity c d (extract_keywords (PlatformMarket.question c)) = 0
          \<and> calculate_similarity c d {} = 0)
   \<and> ((\<forall>x \<in> set ms. \<forall>y \<in> set ms. platform x \<noteq> platform y \<longrightarrow>
          extract_keywords (PlatformMarket.question x)
            \<inter> extract_keywords (PlatformMarket.question y) = {})
      \<longrightarrow> match_markets gen_id thresh ms = [])"
proof (intro conjI impI)
  show "calculate_similarity ma mb kw =
     (let kw1 = (if kw = {} then extract_keywords (PlatformMarket.question ma) else kw);
          kw2 = extract_keywords (PlatformMarket.question mb)
      in if kw1 \<inter> kw2 = {} then 0
         else min 1 (real (card (kw1 \<inter> kw2)) / real (card (kw1 \<union> kw2))
                + (if kw1 \<inter> kw2 \<inter> ENTITIES \<noteq> {} then 0.2 else 0)
                + (if kw1 \<inter> kw2 \<inter> YEARS \<noteq> {} then 0.15 else 0)))"
    by (rule calculate_similarity_formula)
next
  assume h: "extract_keywords (PlatformMarket.question a) = {''trump'', ''2024'', ''election''}
        \<and> extract_keywords (PlatformMarket.question b) = {''trump'', ''2024'', ''win''}
        \<and> platform a \<noteq> platform b \<and> market_key a \<noteq> market_key b \<and> th \<le> 0.85"
  then show "calculate_similarity a b (extract_keywords (PlatformMarket.question a)) = 0.85"
    using example_score [of a b] by blast
  show "DEFAULT_SIMILARITY_THRESHOLD \<le> 0.85"
    by (simp add: DEFAULT_SIMILARITY_THRESHOLD_def)
  from h show "match_markets gen_id th [a, b] =
               [\<lparr> event_id = gen_id a, name = take 80 (PlatformMarket.question a),
                   category = PlatformMarket.category a,
                   markets = [(platform a, a), (platform b, b)], confidence = 0.85,
                   event_keywords = {''trump'', ''2024'', ''election''},
                   needs_verification = True \<rparr>]"
    using example_match [of a b th gen_id] by blast
next
  assume "extract_keywords (PlatformMarket.question c) \<inter> extract_keywords (PlatformMarket.question d) = {}"
  then show "calculate_similarity c d (extract_keywords (PlatformMarket.question c)) = 0"
    and "calculate_similarity c d {} = 0"
    by (simp_all add: calculate_similarity_def Let_def)
next
  assume "\<forall>x \<in> set ms. \<forall>y \<in> set ms. platform x \<noteq> platform y \<longrightarrow>
          extract_keywords (PlatformMarket.question x)
            \<inter> extract_keywords (PlatformMarket.question y) = {}"
  then show "match_markets gen_id thresh ms = []"
    by (rule match_markets_none)
qed

theorem similarity_is_jaccard_with_bonuses_witness:
  "calculate_similarity
      (platform_example ''polymarket'' ''p1'' ''Trump 2024 election'' 0.5 0.5)
      (platform_example ''kalshi'' ''k1'' ''Will Trump win in 2024?'' 0.5 0.5)
      (extract_keywords ''Trump 2024 election'') = 0.85
   \<and> match_markets market_id DEFAULT_SIMILARITY_THRESHOLD
        [platform_example ''polymarket'' ''p1'' ''Trump 2024 election'' 0.5 0.5,
         platform_example ''kalshi'' ''k1'' ''Will Trump win in 2024?'' 0.5 0.5] =
      [\<lparr> event_id = ''p1'', name = ''Trump 2024 election'', category = POLITICS,
          markets =
            [(''polymarket'', platform_example ''polymarket'' ''p1'' ''Trump 2024 election'' 0.5 0.5),
             (''kalshi'', platform_example ''kalshi'' ''k1'' ''Will Trump win in 2024?'' 0.5 0.5)],
          confidence = 0.85, event_keywords = {''trump'', ''2024'', ''election''},
          needs_verification = True \<rparr>]
   \<and> calculate_similarity
        (platform_example ''polymarket'' ''p2'' ''Will Bitcoin hit 100k?'' 0.5 0.5)
        (platform_example ''kalshi'' ''k2'' ''Will the Fed cut rates in 2025?'' 0.5 0.5) {} = 0
   \<and> match_markets market_id DEFAULT_SIMILARITY_THRESHOLD
        [platform_example ''polymarket'' ''p2'' ''Will Bitcoin hit 100k?'' 0.5 0.5,
         platform_example ''kalshi'' ''k2'' ''Will the Fed cut rates in 2025?'' 0.5 0.5] = []"
proof -
  have kd: "extract_keywords (PlatformMarket.question
        (platform_example ''polymarket'' ''p2'' ''Will Bitcoin hit 100k?'' 0.5 0.5))
      \<inter> extract_keywords (PlatformMarket.question
        (platform_example ''kalshi'' ''k2'' ''Will the Fed cut rates in 2025?'' 0.5 0.5)) = {}"
    by code_simp
  have ka: "extract_keywords (PlatformMarket.question
      (platform_example ''polymarket'' ''p1'' ''Trump 2024 election'' 0.5 0.5))
      = {''trump'', ''2024'', ''election''}"
    by code_simp
  have kb: "extract_keywords (PlatformMarket.question
      (platform_example ''kalshi'' ''k1'' ''Will Trump win in 2024?'' 0.5 0.5))
      = {''trump'', ''2024'', ''win''}"
    by code_simp
  have ne: "platform (platform_example ''polymarket'' ''p1'' ''Trump 2024 election'' 0.5 0.5)
      \<noteq> platform (platform_example ''kalshi'' ''k1'' ''Will Trump win in 2024?'' 0.5 0.5)"
    "market_key (platform_example ''polymarket'' ''p1'' ''Trump 2024 election'' 0.5 0.5)
      \<noteq> market_key (platform_example ''kalshi'' ''k1'' ''Will Trump win in 2024?'' 0.5 0.5)"
    by (simp_all add: platform_example_def market_key_def)
  have dis: "\<forall>x \<in> set [platform_example ''polymarket'' ''p2'' ''Will Bitcoin hit 100k?'' 0.5 0.5,
         platform_example ''kalshi'' ''k2'' ''Will the Fed cut rates in 2025?'' 0.5 0.5].
       \<forall>y \<in> set [platform_example ''polymarket'' ''p2'' ''Will Bitcoin hit 100k?'' 0.5 0.5,
         platform_example ''kalshi'' ''k2'' ''Will the Fed cut rates in 2025?'' 0.5 0.5].
       platform x \<noteq> platform y \<longrightarrow>
          extract_keywords (PlatformMarket.question x)
            \<inter> extract_keywords (PlatformMarket.question y) = {}"
    by code_simp
  have q: "PlatformMarket.question
      (platform_example ''polymarket'' ''p1'' ''Trump 2024 election'' 0.5 0.5) = ''Trump 2024 election''"
    "PlatformMarket.category
      (platform_example ''polymarket'' ''p1'' ''Trump 2024 election'' 0.5 0.5) = POLITICS"
    "market_id (platform_example ''polymarket'' ''p1'' ''Trump 2024 election'' 0.5 0.5) = ''p1''"
    "platform (platform_example ''polymarket'' ''p1'' ''Trump 2024 election'' 0.5 0.5) = ''polymarket''"
    "platform (platform_example ''kalshi'' ''k1'' ''Will Trump win in 2024?'' 0.5 0.5) = ''kalshi''"
    by (simp_all add: platform_example_def)
  note t = similarity_is_jaccard_with_bonuses
    [where a = "platform_example ''polymarket'' ''p1'' ''Trump 2024 election'' 0.5 0.5"
       and b = "platform_example ''kalshi'' ''k1'' ''Will Trump win in 2024?'' 0.5 0.5"
       and gen_id = market_id and thresh = DEFAULT_SIMILARITY_THRESHOLD
       and ms = "[platform_example ''polymarket'' ''p2'' ''Will Bitcoin hit 100k?'' 0.5 0.5,
         platform_example ''kalshi'' ''k2'' ''Will the Fed cut rates in 2025?'' 0.5 0.5]"
       and ma = "platform_example ''polymarket'' ''p1'' ''Trump 2024 election'' 0.5 0.5"
       and mb = "platform_example ''kalshi'' ''k1'' ''Will Trump win in 2024?'' 0.5 0.5"
       and kw = "{}" and th = DEFAULT_SIMILARITY_THRESHOLD
       and c = "platform_example ''polymarket'' ''p2'' ''Will Bitcoin hit 100k?'' 0.5 0.5"
       and d = "platform_example ''kalshi'' ''k2'' ''Will the Fed cut rates in 2025?'' 0.5 0.5"]
  have le: "DEFAULT_SIMILARITY_THRESHOLD \<le> 0.85"
    by (simp add: DEFAULT_SIMILARITY_THRESHOLD_def)
  from t ka kb ne le have s: "calculate_similarity
      (platform_example ''polymarket'' ''p1'' ''Trump 2024 election'' 0.5 0.5)
      (platform_example ''kalshi'' ''k1'' ''Will Trump win in 2024?'' 0.5 0.5)
      (extract_keywords (PlatformMarket.question
         (platform_example ''polymarket'' ''p1'' ''Trump 2024 election'' 0.5 0.5))) = 0.85"
    by blast
  from t ka kb ne le have m: "match_markets market_id DEFAULT_SIMILARITY_THRESHOLD
        [platform_example ''polymarket'' ''p1'' ''Trump 2024 election'' 0.5 0.5,
         platform_example ''kalshi'' ''k1'' ''Will Trump win in 2024?'' 0.5 0.5] =
      [\<lparr> event_id = market_id (platform_example ''polymarket'' ''p1'' ''Trump 2024 election'' 0.5 0.5),
          name = take 80 (PlatformMarket.question
            (platform_example ''polymarket'' ''p1'' ''Trump 2024 election'' 0.5 0.5)),
          category = PlatformMarket.category
            (platform_example ''polymarket'' ''p1'' ''Trump 2024 election'' 0.5 0.5),
          markets =
            [(platform (platform_example ''polymarket'' ''p1'' ''Trump 2024 election'' 0.5 0.5),
              platform_example ''polymarket'' ''p1'' ''Trump 2024 election'' 0.5 0.5),
             (platform (platform_example ''kalshi'' ''k1'' ''Will Trump win in 2024?'' 0.5 0.5),
              platform_example ''kalshi'' ''k1'' ''Will Trump win in 2024?'' 0.5 0.5)],
          confidence = 0.85, event_keywords = {''trump'', ''2024'', ''election''},
          needs_verification = True \<rparr>]"
    by blast
  from t dis have n: "match_markets market_id DEFAULT_SIMILARITY_THRESHOLD
        [platform_example ''polymarket'' ''p2'' ''Will Bitcoin hit 100k?'' 0.5 0.5,
         platform_example ''kalshi'' ''k2'' ''Will the Fed cut rates in 2025?'' 0.5 0.5] = []"
    by blast
  from t kd have z: "calculate_similarity
        (platform_example ''polymarket'' ''p2'' ''Will Bitcoin hit 100k?'' 0.5 0.5)
        (platform_example ''kalshi'' ''k2'' ''Will the Fed cut rates in 2025?'' 0.5 0.5) {} = 0"
    by blast
  show ?thesis
    using s m n z by (simp only: q take_all_iff) simp
qed


section \<open>Cross-platform detector: results\<close>

lemma min_by_price_first:
  "\<exists>pre post. best # qs = pre @ min_by_price best qs # post
     \<and> (\<forall>q \<in> set pre. snd (min_by_price best qs) < snd q)
     \<and> (\<forall>q \<in> set post. snd (min_by_price best qs) \<le> snd q)"
proof (induction qs arbitrary: best)
  case Nil
  have "[best] = [] @ min_by_price best [] # []" by simp
  then show ?case by fastforce
next
  case (Cons x xs)
  show ?case
  proof (cases "snd x < snd best")
    case True
    then have r: "min_by_price best (x # xs) = min_by_price x xs" by simp
    from Cons [of x] obtain pre post where
      d: "x # xs = pre @ min_by_price x xs # post"
        "\<forall>q \<in> set pre. snd (min_by_price x xs) < snd q"
        "\<forall>q \<in> set post. snd (min_by_price x xs) \<le> snd q"
      by blast
    have "x \<in> set (pre @ min_by_price x xs # post)" using d(1) by (metis list.set_intros(1))
    then have "x \<in> set pre \<or> x = min_by_price x xs \<or> x \<in> set post" by auto
    with d(2,3) have "snd (min_by_price x xs) \<le> snd x" by auto
    with True have lt: "snd (min_by_price x xs) < snd best" by simp
    show ?thesis unfolding r
    proof (intro exI conjI)
      show "best # x # xs = (best # pre) @ min_by_price x xs # post"
        using d(1) by simp
      show "\<forall>q \<in> set (best # pre). snd (min_by_price x xs) < snd q"
        using d(2) lt by simp
      show "\<forall>q \<in> set post. snd (min_by_price x xs) \<le> snd q"
        by (rule d(3))
    qed
  next
    case False
    then have r: "min_by_price best (x # xs) = min_by_price best xs" by simp
    from Cons [of best] obtain pre post where
      d: "best # xs = pre @ min_by_price best xs # post"
        "\<forall>q \<in> set pre. snd (min_by_price best xs) < snd q"
        "\<forall>q \<in> set post. snd (min_by_price best xs) \<le> snd q"
      by blast
    show ?thesis
    proof (cases pre)
      case Nil
      have "best # xs = min_by_price best xs # post"
        using d(1) unfolding Nil by (simp only: append_Nil)
      then have e: "min_by_price best xs = best" "post = xs" by (metis list.inject)+
      show ?thesis unfolding r
      proof (intro exI conjI)
        show "best # x # xs = [] @ min_by_price best xs # x # xs"
          using e(1) by simp
        show "\<forall>q \<in> set []. snd (min_by_price best xs) < snd q" by simp
        show "\<forall>q \<in> set (x # xs). snd (min_by_price best xs) \<le> snd q"
          using d(3) e False by auto
      qed
    next
      case (Cons p pre')
      have "best # xs = p # (pre' @ min_by_price best xs # post)"
        using d(1) unfolding Cons by (simp only: append_Cons)
      then have e: "p = best" "xs = pre' @ min_by_price best xs # post"
        by (metis list.inject)+
      from d(2) Cons e(1) have "snd (min_by_price best xs) < snd best" by simp
      with False have lt: "snd (min_by_price best xs) < snd x" by simp
      show ?thesis unfolding r
      proof (intro exI conjI)
        show "best # x # xs = (best # x # pre') @ min_by_price best xs # post"
          using e(2) by simp
        show "\<forall>q \<in> set (best # x # pre'). snd (min_by_price best xs) < snd q"
          using d(2) Cons e(1) lt by simp
        show "\<forall>q \<in> set post. snd (min_by_price best xs) \<le> snd q"
          by (rule d(3))
      qed
    qed
  qed
qed

lemma find_first_min:
  fixes r :: "string \<times> real"
  assumes "\<forall>q \<in> set pre. v < snd q" and "snd r = v"
  shows "find (\<lambda>q. snd q = v) (pre @ r # post) = Some r"
  using assms by (induction pre) auto

lemma cheapest_is_min_by_price:
  "cheapest (q # qs) = Some (fst (min_by_price q qs))"
proof -
  from min_by_price_first [of q qs] obtain pre post where
    d: "q # qs = pre @ min_by_price q qs # post"
      "\<forall>x \<in> set pre. snd (min_by_price q qs) < snd x"
      "\<forall>x \<in> set post. snd (min_by_price q qs) \<le> snd x"
    by blast
  have "Min (set (map snd (q # qs))) = snd (min_by_price q qs)"
  proof (rule Min_eqI)
    show "finite (set (map snd (q # qs)))" by simp
    show "snd (min_by_price q qs) \<in> set (map snd (q # qs))"
      unfolding d(1) by simp
    fix y assume "y \<in> set (map snd (q # qs))"
    then have "y \<in> snd ` set (q # qs)" by (simp only: set_map)
    then obtain x where x: "x \<in> set (q # qs)" "y = snd x" by (rule imageE)
    from x(1) have "x \<in> set (pre @ min_by_price q qs # post)" by (simp only: d(1))
    then have "x \<in> set pre \<or> x = min_by_price q qs \<or> x \<in> set post" by auto
    with d(2,3) x(2) show "snd (min_by_price q qs) \<le> y" by auto
  qed
  moreover have "find (\<lambda>x. snd x = snd (min_by_price q qs)) (q # qs) = Some (min_by_price q qs)"
    unfolding d(1) by (rule find_first_min) (use d(2) in auto)
  ultimately show ?thesis by (simp add: cheapest_def del: list.map set_simps find.simps)
qed

lemma alist_update_fresh:
  assumes "k \<notin> fst ` set al"
  shows "AList.update k v al = al @ [(k, v)]"
  using assms by (induction al) auto

lemma collect_prices_distinct:
  assumes "distinct (map fst ms)"
    and "fst ` set ms \<inter> fst ` set ys = {}" and "fst ` set ms \<inter> fst ` set ns = {}"
  shows "collect_prices ms (ys, ns)
           = (ys @ positive_quotes best_yes_price ms, ns @ positive_quotes best_no_price ms)"
  using assms
proof (induction ms arbitrary: ys ns)
  case Nil
  then show ?case by simp
next
  case (Cons pm ms)
  obtain p m where pm: "pm = (p, m)" by (cases pm)
  from Cons.prems pm have fresh: "p \<notin> fst ` set ys" "p \<notin> fst ` set ns" "p \<notin> fst ` set ms"
    and d: "distinct (map fst ms)"
    and dj: "fst ` set ms \<inter> fst ` set ys = {}" "fst ` set ms \<inter> fst ` set ns = {}"
    by auto
  let ?ys = "(case best_yes_price m of None \<Rightarrow> ys
              | Some y \<Rightarrow> if y \<noteq> 0 \<and> y > 0 then AList.update p y ys else ys)"
  let ?ns = "(case best_no_price m of None \<Rightarrow> ns
              | Some n \<Rightarrow> if n \<noteq> 0 \<and> n > 0 then AList.update p n ns else ns)"
  have ky: "fst ` set ?ys \<subseteq> insert p (fst ` set ys)"
    by (auto split: option.splits simp: alist_update_fresh [OF fresh(1)])
  have kn: "fst ` set ?ns \<subseteq> insert p (fst ` set ns)"
    by (auto split: option.splits simp: alist_update_fresh [OF fresh(2)])
  have "fst ` set ms \<inter> fst ` set ?ys = {}" "fst ` set ms \<inter> fst ` set ?ns = {}"
    using ky kn dj fresh(3) by blast+
  from Cons.IH [OF d this]
  have "collect_prices ms (?ys, ?ns)
          = (?ys @ positive_quotes best_yes_price ms, ?ns @ positive_quotes best_no_price ms)" .
  then show ?case
    by (auto simp: pm alist_update_fresh [OF fresh(1)] alist_update_fresh [OF fresh(2)]
        split: option.splits)
qed

lemma prices_are_positive_quotes:
  assumes "distinct (map fst (markets ev))"
  shows "yes_prices ev = positive_quotes best_yes_price (markets ev)"
    and "no_prices ev = positive_quotes best_no_price (markets ev)"
  using collect_prices_distinct [OF assms, of "[]" "[]"]
  by (simp_all add: yes_prices_def no_prices_def)

text \<open>
  Claim C4, as amended. An event holds one market for each of its platforms. The YES
  (NO) quotes the detector selects from are the positive best YES (NO) prices of those
  markets, a zero or missing quote being skipped, and the cheapest is the first quote
  of minimal price. If the cheapest YES quote and the cheapest NO quote, so read, come
  from the same platform, \<open>_find_arbitrage\<close> returns the empty list, whatever their sum
  is.
\<close>

theorem same_platform_not_emitted:
  assumes "distinct (map fst (markets ev))"
    and "cheapest (positive_quotes best_yes_price (markets ev)) = Some p"
    and "cheapest (positive_quotes best_no_price (markets ev)) = Some p"
  shows "find_arbitrage platforms ev = Inr []"
proof -
  note q = prices_are_positive_quotes [OF assms(1)]
  from assms(2,3) obtain y ys n ns where
    e: "yes_prices ev = y # ys" "no_prices ev = n # ns"
    unfolding q [symmetric]
    by (cases "yes_prices ev"; cases "no_prices ev") (auto simp: cheapest_def)
  from assms(2,3) have "fst (min_by_price y ys) = p" "fst (min_by_price n ns) = p"
    unfolding q [symmetric] e cheapest_is_min_by_price by simp_all
  then show ?thesis
    by (simp add: find_arbitrage_def e py_min_price_def Let_def)
qed

theorem same_platform_not_emitted_witness:
  "cheapest (positive_quotes best_yes_price (markets (event_example
       [platform_example ''A'' ''1'' ''q'' 0.3 0.4, platform_example ''B'' ''2'' ''q'' 0.5 0.6])))
     = Some ''A''
   \<and> cheapest (positive_quotes best_no_price (markets (event_example
       [platform_example ''A'' ''1'' ''q'' 0.3 0.4, platform_example ''B'' ''2'' ''q'' 0.5 0.6])))
     = Some ''A''
   \<and> (0.3::real) + 0.4 < 1
   \<and> find_arbitrage Map.empty (event_example
       [platform_example ''A'' ''1'' ''q'' 0.3 0.4, platform_example ''B'' ''2'' ''q'' 0.5 0.6])
     = Inr []"
proof -
  have d: "distinct (map fst (markets (event_example
       [platform_example ''A'' ''1'' ''q'' 0.3 0.4, platform_example ''B'' ''2'' ''q'' 0.5 0.6])))"
    by (simp add: event_example_def platform_example_def)
  have y: "cheapest (positive_quotes best_yes_price (markets (event_example
       [platform_example ''A'' ''1'' ''q'' 0.3 0.4, platform_example ''B'' ''2'' ''q'' 0.5 0.6])))
     = Some ''A''"
    by code_simp
  have n: "cheapest (positive_quotes best_no_price (markets (event_example
       [platform_example ''A'' ''1'' ''q'' 0.3 0.4, platform_example ''B'' ''2'' ''q'' 0.5 0.6])))
     = Some ''A''"
    by code_simp
  from same_platform_not_emitted [OF d y n] y n show ?thesis by simp
qed

text \<open>
  Claim C4 as it is stated, with the minimum taken over all the prices of the event's
  platforms, fails on an event of two platforms: A quotes YES at 0 and NO at 0.3, B
  quotes YES at 0.5 and NO at 0.4. The least YES price and the least NO price are both
  those of A, and the detector, which skips the zero quote, returns the opportunity
  that buys YES on B and NO on A.
\<close>

theorem same_platform_not_emitted_counterexample:
  "cheapest (all_quotes best_yes_price (markets (event_example
       [platform_example ''A'' ''1'' ''q'' 0 0.3, platform_example ''B'' ''2'' ''q'' 0.5 0.4])))
     = Some ''A''
   \<and> cheapest (all_quotes best_no_price (markets (event_example
       [platform_example ''A'' ''1'' ''q'' 0 0.3, platform_example ''B'' ''2'' ''q'' 0.5 0.4])))
     = Some ''A''
   \<and> find_arbitrage Map.empty (event_example
       [platform_example ''A'' ''1'' ''q'' 0 0.3, platform_example ''B'' ''2'' ''q'' 0.5 0.4])
     = Inr [\<lparr> event = event_example
               [platform_example ''A'' ''1'' ''q'' 0 0.3, platform_example ''B'' ''2'' ''q'' 0.5 0.4],
              yes_platform = ''B'', yes_price = 0.5, no_platform = ''A'', no_price = 0.3,
              total_cost = 0.8, gross_profit_pct = 25, net_profit_pct = 22.5,
              yes_platform_fee = 0.02, no_platform_fee = 0.02 \<rparr>]"
  by code_simp

lemma set_alist_update: "set (AList.update k v al) \<subseteq> insert (k, v) (set al)"
  by (induction al) auto

lemma quotes_ok_update:
  assumes "quotes_ok best ms qs" and "0 < v" and "(p, m) \<in> set ms" and "best m = Some v"
  shows "quotes_ok best ms (AList.update p v qs)"
  using assms set_alist_update [of p v qs] unfolding quotes_ok_def by fastforce

lemma collect_prices_ok:
  assumes "quotes_ok best_yes_price all ys" and "quotes_ok best_no_price all ns"
    and "set ms \<subseteq> set all"
  shows "quotes_ok best_yes_price all (fst (collect_prices ms (ys, ns)))
       \<and> quotes_ok best_no_price all (snd (collect_prices ms (ys, ns)))"
  using assms
proof (induction ms arbitrary: ys ns)
  case Nil
  then show ?case by simp
next
  case (Cons pm ms)
  obtain p m where pm: "pm = (p, m)" by (cases pm)
  with Cons.prems(3) have mem: "(p, m) \<in> set all" and sub: "set ms \<subseteq> set all" by auto
  let ?ys = "(case best_yes_price m of None \<Rightarrow> ys
              | Some y \<Rightarrow> if y \<noteq> 0 \<and> y > 0 then AList.update p y ys else ys)"
  let ?ns = "(case best_no_price m of None \<Rightarrow> ns
              | Some n \<Rightarrow> if n \<noteq> 0 \<and> n > 0 then AList.update p n ns else ns)"
  have y: "quotes_ok best_yes_price all ?ys"
    using Cons.prems(1) mem by (auto split: option.splits intro: quotes_ok_update)
  have n: "quotes_ok best_no_price all ?ns"
    using Cons.prems(2) mem by (auto split: option.splits intro: quotes_ok_update)
  from Cons.IH [OF y n sub] show ?case by (simp add: pm)
qed

lemma yes_prices_ok: "quotes_ok best_yes_price (markets ev) (yes_prices ev)"
  using collect_prices_ok [of "markets ev" "[]" "[]" "markets ev"]
  by (simp add: yes_prices_def quotes_ok_def)

lemma no_prices_ok: "quotes_ok best_no_price (markets ev) (no_prices ev)"
  using collect_prices_ok [of "markets ev" "[]" "[]" "markets ev"]
  by (simp add: no_prices_def quotes_ok_def)

lemma min_by_price_mem: "min_by_price best qs \<in> set (best # qs)"
  by (induction qs arbitrary: best) auto

text \<open>
  What holds of every event, the floats read as reals: \<open>_find_arbitrage\<close> raises
  nothing, and every opportunity it returns has a positive YES price and a positive NO
  price, each the quote of a market of the event on the platform named (so a platform
  whose quote is zero or missing is never the one selected), on two different platforms;
  its total cost is their sum and lies strictly between 0 and 1, and its gross profit
  percentage is the positive real \<open>(1 - total_cost) / total_cost * 100\<close>.
\<close>

lemma cross_opportunity_prices_positive:
  "\<exists>opps. find_arbitrage platforms ev = Inr opps
     \<and> (\<forall>opp \<in> set opps.
          0 < CrossPlatformArbitrage.yes_price opp \<and> 0 < CrossPlatformArbitrage.no_price opp
          \<and> (\<exists>m. (yes_platform opp, m) \<in> set (markets ev)
                 \<and> best_yes_price m = Some (CrossPlatformArbitrage.yes_price opp))
          \<and> (\<exists>m. (no_platform opp, m) \<in> set (markets ev)
                 \<and> best_no_price m = Some (CrossPlatformArbitrage.no_price opp))
          \<and> yes_platform opp \<noteq> no_platform opp
          \<and> CrossPlatformArbitrage.total_cost opp
               = CrossPlatformArbitrage.yes_price opp + CrossPlatformArbitrage.no_price opp
          \<and> 0 < CrossPlatformArbitrage.total_cost opp
          \<and> CrossPlatformArbitrage.total_cost opp < 1
          \<and> CrossPlatformArbitrage.gross_profit_pct opp
               = (1 - CrossPlatformArbitrage.total_cost opp)
                   / CrossPlatformArbitrage.total_cost opp * 100
          \<and> 0 < CrossPlatformArbitrage.gross_profit_pct opp)"
proof (cases "yes_prices ev = [] \<or> no_prices ev = []")
  case True
  then show ?thesis by (auto simp: find_arbitrage_def)
next
  case False
  then obtain y ys n ns where e: "yes_prices ev = y # ys" "no_prices ev = n # ns"
    by (cases "yes_prices ev"; cases "no_prices ev") auto
  define b_yes where "b_yes = min_by_price y ys"
  define b_no where "b_no = min_by_price n ns"
  have "b_yes \<in> set (yes_prices ev)" "b_no \<in> set (no_prices ev)"
    unfolding e b_yes_def b_no_def by (rule min_by_price_mem)+
  with yes_prices_ok [of ev] no_prices_ok [of ev]
  have py: "0 < snd b_yes" "\<exists>m. (fst b_yes, m) \<in> set (markets ev) \<and> best_yes_price m = Some (snd b_yes)"
    and pn: "0 < snd b_no" "\<exists>m. (fst b_no, m) \<in> set (markets ev) \<and> best_no_price m = Some (snd b_no)"
    unfolding quotes_ok_def by (auto simp: case_prod_beta)
  have pos: "0 < snd b_yes + snd b_no" using py(1) pn(1) by simp
  show ?thesis
  proof (cases "snd b_yes + snd b_no \<ge> 1 \<or> fst b_yes = fst b_no")
    case True
    then show ?thesis
      by (auto simp: find_arbitrage_def e py_min_price_def Let_def b_yes_def b_no_def)
  next
    case False
    then have lt: "snd b_yes + snd b_no < 1" and ne: "fst b_yes \<noteq> fst b_no" by auto
    have g: "0 < (1 - (snd b_yes + snd b_no)) / (snd b_yes + snd b_no) * 100"
      using pos lt by simp
    show ?thesis
      using py pn pos lt ne g
      by (simp add: find_arbitrage_def e py_min_price_def Let_def b_yes_def [symmetric]
          b_no_def [symmetric] py_div_def)
  qed
qed

text \<open>
  Two platforms quote the same tiny price \<open>t\<close>, one for YES and one for NO, and 0.9
  for the other side.
\<close>

lemma best_yes_example: "best_yes_price (platform_example p i q y n) = Some y"
  by (simp add: best_yes_price_def platform_example_def py_lower_def lower_char_def
      ascii_upper_def ascii_lower_def)

lemma best_no_example: "best_no_price (platform_example p i q y n) = Some n"
  by (simp add: best_no_price_def platform_example_def py_lower_def lower_char_def
      ascii_upper_def ascii_lower_def)

lemma two_platform_run:
  assumes "0 < t" "t < 9 / 10" "t + t < 1"
  shows "find_arbitrage Map.empty (event_example
       [platform_example ''A'' ''1'' ''q'' t 0.9, platform_example ''B'' ''2'' ''q'' 0.9 t]) =
     Inr [\<lparr> event = event_example
             [platform_example ''A'' ''1'' ''q'' t 0.9, platform_example ''B'' ''2'' ''q'' 0.9 t],
            yes_platform = ''A'', yes_price = t, no_platform = ''B'', no_price = t,
            total_cost = t + t,
            gross_profit_pct = (1 - (t + t)) / (t + t) * 100,
            net_profit_pct = (1 - (t + t) - (0.02 + 0.02) / 2) / (t + t) * 100,
            yes_platform_fee = 0.02, no_platform_fee = 0.02 \<rparr>]"
proof -
  define ma where "ma = platform_example ''A'' ''1'' ''q'' t 0.9"
  define mb where "mb = platform_example ''B'' ''2'' ''q'' 0.9 t"
  have pl: "platform ma = ''A''" "platform mb = ''B''"
    by (simp_all add: ma_def mb_def platform_example_def)
  have q: "best_yes_price ma = Some t" "best_no_price ma = Some 0.9"
    "best_yes_price mb = Some 0.9" "best_no_price mb = Some t"
    by (simp_all add: ma_def mb_def best_yes_example best_no_example)
  have y: "yes_prices (event_example [ma, mb]) = [(''A'', t), (''B'', 0.9)]"
    using assms by (simp add: yes_prices_def event_example_def pl q)
  have n: "no_prices (event_example [ma, mb]) = [(''A'', 0.9), (''B'', t)]"
    using assms by (simp add: no_prices_def event_example_def pl q)
  have "find_arbitrage Map.empty (event_example [ma, mb]) =
     Inr [\<lparr> event = event_example [ma, mb],
            yes_platform = ''A'', yes_price = t, no_platform = ''B'', no_price = t,
            total_cost = t + t,
            gross_profit_pct = (1 - (t + t)) / (t + t) * 100,
            net_profit_pct = (1 - (t + t) - (0.02 + 0.02) / 2) / (t + t) * 100,
            yes_platform_fee = 0.02, no_platform_fee = 0.02 \<rparr>]"
    using assms by (simp add: find_arbitrage_def y n py_min_price_def py_div_def Let_def)
      (simp add: field_simps)
  then show ?thesis by (simp only: ma_def mb_def)
qed

lemma overflow_arith:
  fixes Z t :: real
  assumes "1 \<le> Z" "t = 1 / (64 * Z)"
  shows "0 < t" "t < 9 / 10" "t + t < 1"
    and "Z \<le> (1 - (t + t)) / (t + t)"
    and "Z \<le> (1 - (t + t)) / (t + t) * 100"
    and "Z \<le> (1 - (t + t) - (0.02 + 0.02) / 2) / (t + t) * 100"
proof -
  have s: "t + t = 1 / (32 * Z)" using assms by simp
  have z: "0 < Z" using assms by simp
  show "0 < t" using assms by simp
  have "1 / (64 * Z) \<le> 1 / 64" using frac_le [of 1 1 64 "64 * Z"] assms(1) by simp
  then have "t \<le> 1 / 64" using assms(2) by simp
  then show "t < 9 / 10" "t + t < 1" by simp_all
  have g: "(1 - (t + t)) / (t + t) = 32 * Z - 1" unfolding s using z by (simp add: field_simps)
  show "Z \<le> (1 - (t + t)) / (t + t)" unfolding g using assms(1) by simp
  show "Z \<le> (1 - (t + t)) / (t + t) * 100" unfolding g using assms(1) by simp
  have n: "(1 - (t + t) - (0.02 + 0.02) / 2) / (t + t) = (98 / 100) * (32 * Z) - 1"
    unfolding s using z by (simp add: field_simps)
  show "Z \<le> (1 - (t + t) - (0.02 + 0.02) / 2) / (t + t) * 100"
    unfolding n using assms(1) by simp
qed

lemma tiny_quote_eq: "tiny_quote = 1 / (64 * 2 ^ 1024)"
proof -
  have "(2::real) ^ (6 + 1024) = 2 ^ 6 * 2 ^ 1024" by (rule power_add)
  then have "(2::real) ^ 1030 = 64 * 2 ^ 1024" by simp
  then show ?thesis by (simp only: tiny_quote_def)
qed

lemma dbl_max_below: "DBL_MAX < 2 ^ 1024"
proof -
  have "(2::real) ^ (1 + 1023) = 2 ^ 1 * 2 ^ 1023" by (rule power_add)
  then have e: "(2::real) ^ 1024 = 2 * 2 ^ 1023" by simp
  have "(0::real) < 2 ^ 1023" by simp
  then have "(2 - 1 / 2 ^ 52) * 2 ^ 1023 < 2 * (2::real) ^ 1023"
    by (intro mult_strict_right_mono) simp_all
  then show ?thesis by (simp only: DBL_MAX_def e)
qed

text \<open>
  Claim C10, evaluated where it fails. Platform A quotes YES at \<open>2 ^ -1030\<close> and NO
  at 0.9, platform B quotes YES at 0.9 and NO at \<open>2 ^ -1030\<close>. Both tiny quotes are
  positive, so they pass the guard \<open>> 0\<close> and are the cheapest; \<open>_find_arbitrage\<close>
  returns one opportunity, of total cost \<open>2 ^ -1029\<close>. Its quotient
  \<open>(1 - total_cost) / total_cost\<close> and its gross and net profit percentages are at
  least \<open>2 ^ 1024\<close>, beyond the largest finite double \<open>DBL_MAX\<close>: as floats they
  are \<open>inf\<close>, not finite. The reach and dip rules of the delta detector floor the same
  kind of divisor with \<open>max(price, 0.01)\<close>; this division has no floor.
\<close>

theorem tiny_quotes_overflow:
  "(case find_arbitrage Map.empty (event_example
       [platform_example ''A'' ''1'' ''q'' tiny_quote 0.9,
        platform_example ''B'' ''2'' ''q'' 0.9 tiny_quote]) of
      Inr [opp] \<Rightarrow>
        CrossPlatformArbitrage.yes_price opp = tiny_quote
        \<and> CrossPlatformArbitrage.no_price opp = tiny_quote
        \<and> 0 < CrossPlatformArbitrage.total_cost opp
        \<and> CrossPlatformArbitrage.total_cost opp < 1
        \<and> 2 ^ 1024 \<le> (1 - CrossPlatformArbitrage.total_cost opp)
                          / CrossPlatformArbitrage.total_cost opp
        \<and> 2 ^ 1024 \<le> CrossPlatformArbitrage.gross_profit_pct opp
        \<and> 2 ^ 1024 \<le> CrossPlatformArbitrage.net_profit_pct opp
    | _ \<Rightarrow> False)
   \<and> DBL_MAX < 2 ^ 1024"
proof -
  define Z :: real where "Z = 2 ^ 1024"
  have z: "1 \<le> Z" unfolding Z_def by (rule one_le_power) simp
  have t: "tiny_quote = 1 / (64 * Z)" unfolding Z_def by (rule tiny_quote_eq)
  note a = overflow_arith [OF z t]
  have p: "0 < tiny_quote + tiny_quote" using a(1) by simp
  have d: "DBL_MAX < Z" unfolding Z_def by (rule dbl_max_below)
  show ?thesis
    unfolding two_platform_run [OF a(1) a(2) a(3)] Z_def [symmetric]
    using a(3) a(4) a(5) a(6) p d by simp
qed


end
